theory Spec2Isabelle
  imports Complex_Main "HOL-Library.Log_Nat"
begin

section \<open>Documents and the store\<close>

text \<open>
  The backend keeps three Mongoose collections: polls, votes and petitions. A document
  is a record with the fields that a handler reads or writes or that a validator of its
  schema constrains; the fields without a validator that no modelled handler touches
  (tags, state and city of a poll or petition, the results cache of a poll) are left
  out, and so are the required fields that are not strings (the dates and the creator
  of a poll), which the record always has. Dates are milliseconds since the epoch, an
  absent (undefined) field is \<open>None\<close>, and a string is the sequence of the characters
  that the length validators count.
\<close>

type_synonym objectId = string
type_synonym date = int

record option_doc =
  option_id :: string
  option_text :: string

datatype poll_type = yes_no | multiple_choice | rating_type | emoji_type

record poll =
  title :: string
  description :: "string option"
  poll_type :: poll_type
  options :: "option_doc list"
  category :: string
  isActive :: bool
  startDate :: date
  endDate :: date
  totalVotes :: int
  priority :: "string option"
  poll_updatedAt :: date

record vote_metadata =
  state :: "string option"
  city :: "string option"
  ageGroup :: "string option"
  gender :: "string option"
  timestamp :: date

record vote =
  vote_id :: objectId
  userId :: string
  pollId :: objectId
  selectedOption :: string
  rating :: "rat option"
  emoji :: "string option"
  metadata :: vote_metadata
  isValid :: bool
  createdAt :: date
  vote_updatedAt :: date

record supporter =
  supporter_userId :: string
  signedAt :: date
  supporter_message :: "string option"

record timeline_entry =
  event :: string
  entry_date :: date
  details :: "string option"

record petition =
  petition_title :: string
  petition_description :: string
  petition_category :: string
  targetAuthority :: string
  createdBy :: string
  signatures :: int
  signaturesRequired :: int
  status :: string
  supporters :: "supporter list"
  timeline :: "timeline_entry list"
  adminNotes :: "string option"
  updatedAt :: date

record store =
  polls :: "objectId \<rightharpoonup> poll"
  votes :: "vote list"
  petitions :: "objectId \<rightharpoonup> petition"

text \<open>
  \<open>req.body\<close> is a JSON object; the record lists every field that one of the modelled
  handlers reads from it, with the JSON type that the schemas and the clients give it
  (strings, and a number for the rating, which is taken as a rational). A handler
  ignores the fields it does not destructure.
\<close>

record body =
  req_userId :: "string option"
  req_pollId :: "string option"
  req_selectedOption :: "string option"
  req_rating :: "rat option"
  req_emoji :: "string option"
  req_state :: "string option"
  req_city :: "string option"
  req_ageGroup :: "string option"
  req_gender :: "string option"
  req_message :: "string option"
  req_status :: "string option"
  req_adminNotes :: "string option"

text \<open>A handler answers with an HTTP status and the \<open>message\<close> of its JSON reply.\<close>

datatype response = Response (status_code: nat) (message: string)

abbreviation MissingFields :: response where
  "MissingFields \<equiv> Response 400 ''Missing required fields: userId, pollId, selectedOption''"
abbreviation PollNotFound :: response where
  "PollNotFound \<equiv> Response 404 ''Poll not found''"
abbreviation PollNotActive :: response where
  "PollNotActive \<equiv> Response 400 ''Poll is not active''"
abbreviation PollEnded :: response where
  "PollEnded \<equiv> Response 400 ''Poll has ended''"
abbreviation InvalidOption :: response where
  "InvalidOption \<equiv> Response 400 ''Invalid option selected''"
abbreviation AlreadyVoted :: response where
  "AlreadyVoted \<equiv> Response 400 ''You have already voted in this poll''"
abbreviation VoteCast :: response where
  "VoteCast \<equiv> Response 201 ''Vote cast successfully''"
abbreviation CastVoteFailed :: response where
  "CastVoteFailed \<equiv> Response 500 ''Failed to cast vote''"
abbreviation VoteNotFound :: response where
  "VoteNotFound \<equiv> Response 404 ''Vote not found''"
abbreviation AssociatedPollNotFound :: response where
  "AssociatedPollNotFound \<equiv> Response 404 ''Associated poll not found''"
abbreviation CannotUpdateClosed :: response where
  "CannotUpdateClosed \<equiv> Response 400 ''Cannot update vote - poll is closed''"
abbreviation VoteUpdated :: response where
  "VoteUpdated \<equiv> Response 200 ''Vote updated successfully''"
abbreviation UpdateVoteFailed :: response where
  "UpdateVoteFailed \<equiv> Response 500 ''Failed to update vote''"
abbreviation CannotDeleteClosed :: response where
  "CannotDeleteClosed \<equiv> Response 400 ''Cannot delete vote - poll is closed''"
abbreviation VoteDeleted :: response where
  "VoteDeleted \<equiv> Response 200 ''Vote deleted successfully''"
abbreviation DeleteVoteFailed :: response where
  "DeleteVoteFailed \<equiv> Response 500 ''Failed to delete vote''"

text \<open>
  The spec's \<open>PollClosed\<close> covers the two replies with which a handler turns down a
  poll that is inactive or past its end date.
\<close>

definition PollClosed :: "response \<Rightarrow> bool" where
  "PollClosed r \<longleftrightarrow> r = PollNotActive \<or> r = PollEnded"

section \<open>The store operations of Mongoose that the handlers call\<close>

text \<open>
  What a rejected promise carries. Every handler catches them all in one \<open>catch\<close> block
  and answers 500.
\<close>

datatype store_error = CastError | ValidationError | DuplicateKey | DocumentNotFound

text \<open>JavaScript truthiness of an optional string: undefined and \<open>''\<close> are falsy.\<close>

definition truthy :: "string option \<Rightarrow> string option" where
  "truthy x = (case x of None \<Rightarrow> None | Some s \<Rightarrow> if s = [] then None else Some s)"

text \<open>
  An identifier is well formed when it is the 24-digit hexadecimal form of an ObjectId.
  \<open>findById\<close> rejects with a CastError on any other string.
\<close>

definition ObjectId_isValid :: "string \<Rightarrow> bool" where
  "ObjectId_isValid s \<longleftrightarrow>
     length s = 24 \<and> list_all (\<lambda>c. c \<in> set ''0123456789abcdefABCDEF'') s"

definition Poll_findById :: "string \<Rightarrow> store \<Rightarrow> store_error + poll option" where
  "Poll_findById i s = (if ObjectId_isValid i then Inr (polls s i) else Inl CastError)"

definition Vote_findById :: "string \<Rightarrow> store \<Rightarrow> store_error + vote option" where
  "Vote_findById i s =
     (if ObjectId_isValid i then Inr (find (\<lambda>v. vote_id v = i) (votes s)) else Inl CastError)"

definition Vote_findOne :: "string \<Rightarrow> objectId \<Rightarrow> store \<Rightarrow> vote option" where
  "Vote_findOne u p s = find (\<lambda>v. userId v = u \<and> pollId v = p) (votes s)"

text \<open>The validators of VoteSchema: required strings, rating between 1 and 10, two enums.\<close>

definition valid_rating :: "rat option \<Rightarrow> bool" where
  "valid_rating r = (case r of None \<Rightarrow> True | Some x \<Rightarrow> 1 \<le> x \<and> x \<le> 10)"

definition valid_ageGroup :: "string option \<Rightarrow> bool" where
  "valid_ageGroup a =
     (case a of None \<Rightarrow> True
      | Some x \<Rightarrow> x \<in> set [''18-25'', ''26-35'', ''36-45'', ''46-55'', ''56+''])"

definition valid_gender :: "string option \<Rightarrow> bool" where
  "valid_gender g =
     (case g of None \<Rightarrow> True
      | Some x \<Rightarrow> x \<in> set [''Male'', ''Female'', ''Other'', ''Prefer not to say''])"

definition Vote_validate :: "vote \<Rightarrow> bool" where
  "Vote_validate v \<longleftrightarrow>
     userId v \<noteq> [] \<and> ObjectId_isValid (pollId v) \<and> selectedOption v \<noteq> [] \<and>
     valid_rating (rating v) \<and> valid_ageGroup (ageGroup (metadata v)) \<and>
     valid_gender (gender (metadata v))"

text \<open>
  The validators of PollSchema that a stored poll can fail: title and description, the
  category and priority enums, the rule on the number of options (exactly 2 for a
  yes/no poll, 2 to 6 otherwise) and the required id and text of every option.
\<close>

definition valid_options :: "poll_type \<Rightarrow> option_doc list \<Rightarrow> bool" where
  "valid_options ty opts \<longleftrightarrow>
     (if ty = yes_no then length opts = 2 else 2 \<le> length opts \<and> length opts \<le> 6)"

definition Poll_validate :: "poll \<Rightarrow> bool" where
  "Poll_validate p \<longleftrightarrow>
     title p \<noteq> [] \<and> length (title p) \<le> 200 \<and>
     (case description p of None \<Rightarrow> True | Some d \<Rightarrow> length d \<le> 1000) \<and>
     valid_options (poll_type p) (options p) \<and>
     list_all (\<lambda>option. option_id option \<noteq> [] \<and> option_text option \<noteq> []) (options p) \<and>
     category p \<in> set [''national'', ''local'', ''social'', ''economic'', ''political''] \<and>
     (case priority p of None \<Rightarrow> True | Some x \<Rightarrow> x \<in> set [''low'', ''medium'', ''high''])"



text \<open>
  \<open>save\<close> validates the whole document it is called on, the loaded copy with what the
  handler assigned or pushed, before anything is written. With \<open>timestamps: true\<close> it
  also stamps \<open>updatedAt\<close> when the document is new or was modified.

  \<open>save\<close> of a new vote: the validators run first, then the insert, which the unique
  indexes on \<open>_id\<close> and on (userId, pollId) turn down with a duplicate-key error.
\<close>

definition Vote_save :: "vote \<Rightarrow> store \<Rightarrow> store_error + store" where
  "Vote_save v s =
     (if \<not> Vote_validate v then Inl ValidationError
      else if list_ex (\<lambda>w. vote_id w = vote_id v) (votes s) then Inl DuplicateKey
      else if list_ex (\<lambda>w. userId w = userId v \<and> pollId w = pollId v) (votes s)
        then Inl DuplicateKey
      else Inr (s\<lparr>votes := votes s @ [v]\<rparr>))"

text \<open>
  \<open>save\<close> of a vote that was loaded and then assigned to: the validators run on the
  assigned copy, and the stored document with that \<open>_id\<close> receives the paths whose
  value the assignment changed, and the time of the save as \<open>updatedAt\<close>. When no
  assignment changed a value, nothing is written.
\<close>

fun replace_first :: "('a \<Rightarrow> bool) \<Rightarrow> ('a \<Rightarrow> 'a) \<Rightarrow> 'a list \<Rightarrow> 'a list" where
  "replace_first P f [] = []"
| "replace_first P f (x # xs) = (if P x then f x # xs else x # replace_first P f xs)"

fun delete_first :: "('a \<Rightarrow> bool) \<Rightarrow> 'a list \<Rightarrow> 'a list" where
  "delete_first P [] = []"
| "delete_first P (x # xs) = (if P x then xs else x # delete_first P xs)"

definition vote_modified :: "vote \<Rightarrow> vote \<Rightarrow> bool" where
  "vote_modified loaded assigned \<longleftrightarrow>
     selectedOption assigned \<noteq> selectedOption loaded \<or> rating assigned \<noteq> rating loaded \<or>
     emoji assigned \<noteq> emoji loaded"

definition write_modified :: "vote \<Rightarrow> vote \<Rightarrow> date \<Rightarrow> vote \<Rightarrow> vote" where
  "write_modified loaded assigned now w =
     w\<lparr>selectedOption := (if selectedOption assigned \<noteq> selectedOption loaded
                            then selectedOption assigned else selectedOption w),
       rating := (if rating assigned \<noteq> rating loaded then rating assigned else rating w),
       emoji := (if emoji assigned \<noteq> emoji loaded then emoji assigned else emoji w),
       vote_updatedAt := now\<rparr>"

definition Vote_update :: "vote \<Rightarrow> vote \<Rightarrow> date \<Rightarrow> store \<Rightarrow> store_error + store" where
  "Vote_update loaded assigned now s =
     (if \<not> Vote_validate assigned then Inl ValidationError
      else if \<not> list_ex (\<lambda>w. vote_id w = vote_id loaded) (votes s) then Inl DocumentNotFound
      else if \<not> vote_modified loaded assigned then Inr s
      else Inr (s\<lparr>votes := replace_first (\<lambda>w. vote_id w = vote_id loaded)
                                (write_modified loaded assigned now) (votes s)\<rparr>))"

definition Vote_findByIdAndDelete :: "objectId \<Rightarrow> store \<Rightarrow> store" where
  "Vote_findByIdAndDelete i s = s\<lparr>votes := delete_first (\<lambda>w. vote_id w = i) (votes s)\<rparr>"

text \<open>
  \<open>save\<close> of a poll that was loaded and whose \<open>totalVotes\<close> was then assigned: the
  validators run on the loaded copy (none of them reads \<open>totalVotes\<close>), and the stored
  document receives the value computed from that copy, and the time of the save as
  \<open>updatedAt\<close>. When the assigned value is the loaded one, nothing is written.
\<close>

definition Poll_save_totalVotes ::
  "objectId \<Rightarrow> poll \<Rightarrow> int \<Rightarrow> date \<Rightarrow> store \<Rightarrow> store_error + store" where
  "Poll_save_totalVotes i loaded n now s =
     (if \<not> Poll_validate loaded then Inl ValidationError
      else (case polls s i of
              None \<Rightarrow> Inl DocumentNotFound
            | Some p \<Rightarrow>
                if n = totalVotes loaded then Inr s
                else Inr (s\<lparr>polls := (polls s)(i \<mapsto> p\<lparr>totalVotes := n,
                                                          poll_updatedAt := now\<rparr>)\<rparr>)))"

section \<open>VoteController\<close>

text \<open>
  \<open>castVote\<close>, in the two stretches between which the event loop can run another
  request: the reads and checks up to the answer of \<open>Vote.findOne\<close>, and the two saves.
  \<open>now\<close> is what \<open>new Date()\<close> returns, \<open>newId\<close> the \<open>_id\<close> given to the new vote.
\<close>

definition castVote_check :: "date \<Rightarrow> body \<Rightarrow> store \<Rightarrow> response + poll" where
  "castVote_check now b s =
     (case (truthy (req_userId b), truthy (req_pollId b), truthy (req_selectedOption b)) of
        (Some u, Some pid, Some sel) \<Rightarrow>
          (case Poll_findById pid s of
             Inl e \<Rightarrow> Inl CastVoteFailed
           | Inr None \<Rightarrow> Inl PollNotFound
           | Inr (Some poll) \<Rightarrow>
               if \<not> isActive poll then Inl PollNotActive
               else if now > endDate poll then Inl PollEnded
               else if find (\<lambda>option. option_id option = sel) (options poll) = None
                 then Inl InvalidOption
               else (case Vote_findOne u pid s of
                       Some existingVote \<Rightarrow> Inl AlreadyVoted
                     | None \<Rightarrow> Inr poll))
      | _ \<Rightarrow> Inl MissingFields)"

definition new_Vote :: "date \<Rightarrow> objectId \<Rightarrow> body \<Rightarrow> vote" where
  "new_Vote now newId b =
     \<lparr>vote_id = newId,
      userId = (case req_userId b of Some u \<Rightarrow> u | None \<Rightarrow> []),
      pollId = (case req_pollId b of Some p \<Rightarrow> p | None \<Rightarrow> []),
      selectedOption = (case req_selectedOption b of Some x \<Rightarrow> x | None \<Rightarrow> []),
      rating = req_rating b,
      emoji = req_emoji b,
      metadata = \<lparr>state = req_state b, city = req_city b, ageGroup = req_ageGroup b,
                  gender = req_gender b, timestamp = now\<rparr>,
      isValid = True,
      createdAt = now,
      vote_updatedAt = now\<rparr>"

definition castVote_commit :: "date \<Rightarrow> objectId \<Rightarrow> body \<Rightarrow> poll \<Rightarrow> store \<Rightarrow> response \<times> store" where
  "castVote_commit now newId b poll s =
     (let vote = new_Vote now newId b in
      case Vote_save vote s of
        Inl e \<Rightarrow> (CastVoteFailed, s)
      | Inr s1 \<Rightarrow>
          (case Poll_save_totalVotes (pollId vote) poll (totalVotes poll + 1) now s1 of
             Inl e \<Rightarrow> (CastVoteFailed, s1)
           | Inr s2 \<Rightarrow> (VoteCast, s2)))"

definition castVote :: "date \<Rightarrow> objectId \<Rightarrow> body \<Rightarrow> store \<Rightarrow> response \<times> store" where
  "castVote now newId b s =
     (case castVote_check now b s of
        Inl r \<Rightarrow> (r, s)
      | Inr poll \<Rightarrow> castVote_commit now newId b poll s)"

definition updateVote :: "date \<Rightarrow> string \<Rightarrow> body \<Rightarrow> store \<Rightarrow> response \<times> store" where
  "updateVote now voteId b s =
     (case Vote_findById voteId s of
        Inl e \<Rightarrow> (UpdateVoteFailed, s)
      | Inr None \<Rightarrow> (VoteNotFound, s)
      | Inr (Some vote) \<Rightarrow>
          (case Poll_findById (pollId vote) s of
             Inl e \<Rightarrow> (UpdateVoteFailed, s)
           | Inr None \<Rightarrow> (AssociatedPollNotFound, s)
           | Inr (Some poll) \<Rightarrow>
               if \<not> isActive poll \<or> now > endDate poll then (CannotUpdateClosed, s)
               else
                 (let vote' = vote
                      \<lparr>selectedOption :=
                         (case truthy (req_selectedOption b) of
                            Some sel \<Rightarrow> sel
                          | None \<Rightarrow> selectedOption vote),
                       rating := req_rating b,
                       emoji := req_emoji b\<rparr>
                  in case Vote_update vote vote' now s of
                       Inl e \<Rightarrow> (UpdateVoteFailed, s)
                     | Inr s' \<Rightarrow> (VoteUpdated, s'))))"

definition deleteVote :: "date \<Rightarrow> string \<Rightarrow> store \<Rightarrow> response \<times> store" where
  "deleteVote now voteId s =
     (case Vote_findById voteId s of
        Inl e \<Rightarrow> (DeleteVoteFailed, s)
      | Inr None \<Rightarrow> (VoteNotFound, s)
      | Inr (Some vote) \<Rightarrow>
          (case Poll_findById (pollId vote) s of
             Inl e \<Rightarrow> (DeleteVoteFailed, s)
           | Inr None \<Rightarrow> (AssociatedPollNotFound, s)
           | Inr (Some poll) \<Rightarrow>
               if \<not> isActive poll \<or> now > endDate poll then (CannotDeleteClosed, s)
               else
                 (let s1 = Vote_findByIdAndDelete voteId s in
                  case Poll_save_totalVotes (pollId vote) poll
                         (max 0 (totalVotes poll - 1)) now s1 of
                    Inl e \<Rightarrow> (DeleteVoteFailed, s1)
                  | Inr s2 \<Rightarrow> (VoteDeleted, s2))))"

section \<open>PetitionController\<close>

abbreviation InvalidPetitionId :: response where
  "InvalidPetitionId \<equiv> Response 400 ''Invalid petition ID''"
abbreviation PetitionNotFound :: response where
  "PetitionNotFound \<equiv> Response 404 ''Petition not found''"
abbreviation StatusUpdated :: response where
  "StatusUpdated \<equiv> Response 200 ''Petition status updated successfully''"
abbreviation UpdateStatusFailed :: response where
  "UpdateStatusFailed \<equiv> Response 500 ''Failed to update petition status''"

text \<open>The decimal text that a template literal gives an integer.\<close>

fun string_of_nat :: "nat \<Rightarrow> string" where
  "string_of_nat n =
     (if n < 10 then [''0123456789'' ! n]
      else string_of_nat (n div 10) @ [''0123456789'' ! (n mod 10)])"

declare string_of_nat.simps [simp del]






text \<open>
  \<open>updatePetitionStatus\<close> is one \<open>findByIdAndUpdate\<close>: it sets the fields the request
  carries (a field that is undefined is left out of the update) and pushes one timeline
  entry. No validator runs and the stored status is not read.
\<close>

definition status_entry :: "date \<Rightarrow> string option \<Rightarrow> timeline_entry" where
  "status_entry now st =
     \<lparr>event = ''Status Updated'', entry_date = now,
      details = Some (''Status changed to ''
                      @ (case st of Some x \<Rightarrow> x | None \<Rightarrow> ''undefined'') @ '' by admin'')\<rparr>"

definition updatePetitionStatus :: "date \<Rightarrow> string \<Rightarrow> body \<Rightarrow> store \<Rightarrow> response \<times> store" where
  "updatePetitionStatus now i b s =
     (if \<not> ObjectId_isValid i then (InvalidPetitionId, s)
      else (case petitions s i of
              None \<Rightarrow> (PetitionNotFound, s)
            | Some p \<Rightarrow>
                (StatusUpdated,
                 s\<lparr>petitions := (petitions s)(i \<mapsto>
                     p\<lparr>status := (case req_status b of Some st \<Rightarrow> st | None \<Rightarrow> status p),
                       adminNotes := (case req_adminNotes b of
                                        Some n \<Rightarrow> Some n | None \<Rightarrow> adminNotes p),
                       updatedAt := now,
                       timeline := timeline p @ [status_entry now (req_status b)]\<rparr>)\<rparr>)))"

text \<open>
  The handler that the admin router mounts on \<open>PATCH /petitions/:id/status\<close>: the same
  update behind a check that the requested status is one of the four names. It does not
  name \<open>updatedAt\<close>, which \<open>findByIdAndUpdate\<close> stamps by itself.
\<close>

definition admin_patch_petition_status ::
  "date \<Rightarrow> string \<Rightarrow> body \<Rightarrow> store \<Rightarrow> response \<times> store" where
  "admin_patch_petition_status now i b s =
     (if (case req_status b of
            None \<Rightarrow> True
          | Some st \<Rightarrow> st \<notin> set [''active'', ''submitted'', ''resolved'', ''rejected''])
        then (Response 400 ''Invalid status'', s)
      else if \<not> ObjectId_isValid i then (UpdateStatusFailed, s)
      else (case petitions s i of
              None \<Rightarrow> (PetitionNotFound, s)
            | Some p \<Rightarrow>
                (Response 200 ''Petition status updated'',
                 s\<lparr>petitions := (petitions s)(i \<mapsto>
                     p\<lparr>status := (case req_status b of Some st \<Rightarrow> st | None \<Rightarrow> status p),
                       adminNotes := (case req_adminNotes b of
                                        Some n \<Rightarrow> Some n | None \<Rightarrow> adminNotes p),
                       updatedAt := now,
                       timeline := timeline p @ [status_entry now (req_status b)]\<rparr>)\<rparr>)))"

section \<open>Poll results\<close>

record result_row =
  res_optionId :: string
  res_optionText :: string
  res_votes :: nat
  res_percentage :: rat

text \<open>
  A JavaScript number is an IEEE 754 double: a rational with a significand of 53 bits,
  and every arithmetic operation returns the double nearest to the exact result, a tie
  going to the even significand. \<open>ilog2 x\<close> is the exponent of a positive \<open>x\<close>, the
  integer \<open>e\<close> with \<open>2^e \<le> x < 2^(e+1)\<close>. The exponent range of a double is not
  modelled: the numbers of the results computation lie between \<open>2^-53\<close> and \<open>2^53\<close>.
\<close>

definition ilog2 :: "rat \<Rightarrow> int" where
  "ilog2 x = (if 1 \<le> x then bitlen \<lfloor>x\<rfloor> - 1 else - bitlen (\<lceil>1 / x\<rceil> - 1))"

definition round_half_even :: "rat \<Rightarrow> int" where
  "round_half_even x =
     (let f = \<lfloor>x\<rfloor>; d = x - of_int f
      in if d < 1 / 2 then f else if 1 / 2 < d then f + 1 else if even f then f else f + 1)"

definition double_round :: "rat \<Rightarrow> rat" where
  "double_round x =
     (if x = 0 then 0
      else let ulp = 2 powi (ilog2 \<bar>x\<bar> - 52)
           in sgn x * (of_int (round_half_even (\<bar>x\<bar> / ulp)) * ulp))"

definition fdiv :: "rat \<Rightarrow> rat \<Rightarrow> rat" where
  "fdiv a b = double_round (a / b)"

definition fmul :: "rat \<Rightarrow> rat \<Rightarrow> rat" where
  "fmul a b = double_round (a * b)"

text \<open>
  \<open>Math.round\<close> returns the integer nearest to its argument, a half going upwards; the
  result is exact.
\<close>

definition Math_round :: "rat \<Rightarrow> int" where
  "Math_round x = \<lfloor>x + 1 / 2\<rfloor>"

text \<open>
  The \<open>poll.options.map\<close> of \<open>getPollResults\<close> and of the results route, over the votes
  that \<open>Vote.find\<close> returned: \<open>(totalOptionVotes / votes.length) * 100\<close>, and then
  \<open>Math.round(percentage * 100) / 100\<close>, each operation in double precision.
\<close>

definition calc_results :: "option_doc list \<Rightarrow> vote list \<Rightarrow> result_row list" where
  "calc_results opts vs =
     map (\<lambda>option.
            let optionVotes = filter (\<lambda>vote. selectedOption vote = option_id option) vs;
                totalOptionVotes = length optionVotes;
                percentage = (if length vs > 0
                              then fmul (fdiv (of_nat totalOptionVotes) (of_nat (length vs))) 100
                              else 0)
            in \<lparr>res_optionId = option_id option,
                res_optionText = option_text option,
                res_votes = totalOptionVotes,
                res_percentage = fdiv (of_int (Math_round (fmul percentage 100))) 100\<rparr>)
         opts"

definition voteFilter ::
  "objectId \<Rightarrow> string option \<Rightarrow> string option \<Rightarrow> string option \<Rightarrow> vote \<Rightarrow> bool" where
  "voteFilter pid st ag g v \<longleftrightarrow>
     pollId v = pid \<and>
     (case truthy st of None \<Rightarrow> True | Some x \<Rightarrow> state (metadata v) = Some x) \<and>
     (case truthy ag of None \<Rightarrow> True | Some x \<Rightarrow> ageGroup (metadata v) = Some x) \<and>
     (case truthy g of None \<Rightarrow> True | Some x \<Rightarrow> gender (metadata v) = Some x)"

definition getPollResults ::
  "string \<Rightarrow> string option \<Rightarrow> string option \<Rightarrow> string option \<Rightarrow> store
     \<Rightarrow> response + result_row list" where
  "getPollResults i st ag g s =
     (if \<not> ObjectId_isValid i then Inl (Response 400 ''Invalid poll ID'')
      else (case polls s i of
              None \<Rightarrow> Inl PollNotFound
            | Some poll \<Rightarrow>
                Inr (calc_results (options poll) (filter (voteFilter i st ag g) (votes s)))))"

text \<open>The route \<open>GET /polls/:pollId\<close> of the results router has no identifier check.\<close>

definition results_route ::
  "string \<Rightarrow> string option \<Rightarrow> string option \<Rightarrow> string option \<Rightarrow> store
     \<Rightarrow> response + result_row list" where
  "results_route i st ag g s =
     (case Poll_findById i s of
        Inl e \<Rightarrow> Inl (Response 500 ''Failed to fetch results'')
      | Inr None \<Rightarrow> Inl PollNotFound
      | Inr (Some poll) \<Rightarrow>
          Inr (calc_results (options poll) (filter (voteFilter i st ag g) (votes s))))"

section \<open>Milestones of the petition dashboard\<close>

definition milestones :: "int list" where
  "milestones = [100, 500, 1000, 5000, 10000, 50000]"

definition reached_milestones :: "int \<Rightarrow> int list" where
  "reached_milestones n = filter (\<lambda>m. n \<ge> m) milestones"

definition getMilestones :: "int \<Rightarrow> nat" where
  "getMilestones n = length (reached_milestones n)"

section \<open>Runs of requests and the invariants of the store\<close>

text \<open>Requests that run one after the other, each to its end before the next starts.\<close>

datatype vote_op = CastVote date objectId body | RetractVote date string

fun run_vote_op :: "vote_op \<Rightarrow> store \<Rightarrow> store" where
  "run_vote_op (CastVote now newId b) s = snd (castVote now newId b s)"
| "run_vote_op (RetractVote now voteId) s = snd (deleteVote now voteId s)"

fun run_vote_ops :: "vote_op list \<Rightarrow> store \<Rightarrow> store" where
  "run_vote_ops [] s = s"
| "run_vote_ops (x # xs) s = run_vote_ops xs (run_vote_op x s)"




text \<open>The cached counter of every poll is the number of votes that reference the poll.\<close>

definition votes_of :: "objectId \<Rightarrow> store \<Rightarrow> vote list" where
  "votes_of i s = filter (\<lambda>v. pollId v = i) (votes s)"

definition counter_consistent :: "store \<Rightarrow> bool" where
  "counter_consistent s \<longleftrightarrow>
     (\<forall>i p. polls s i = Some p \<longrightarrow> totalVotes p = int (length (votes_of i s)))"

text \<open>Every stored poll passes the validators of its schema.\<close>

definition polls_valid :: "store \<Rightarrow> bool" where
  "polls_valid s \<longleftrightarrow> (\<forall>i p. polls s i = Some p \<longrightarrow> Poll_validate p)"


text \<open>The selected option of every vote is an option of the poll the vote references.\<close>

definition option_ids :: "poll \<Rightarrow> string list" where
  "option_ids p = map option_id (options p)"

definition votes_reference_options :: "store \<Rightarrow> bool" where
  "votes_reference_options s \<longleftrightarrow>
     (\<forall>v \<in> set (votes s). \<forall>p. polls s (pollId v) = Some p \<longrightarrow>
        selectedOption v \<in> set (option_ids p))"

text \<open>
  The Milestone Engine as the specification words it, to compare with \<open>getMilestones\<close>.
\<close>

definition Evaluate_spec :: "int \<Rightarrow> int \<Rightarrow> int list \<Rightarrow> int list" where
  "Evaluate_spec previousCount newCount thresholds =
     filter (\<lambda>t. previousCount < t \<and> t \<le> newCount) thresholds"

section \<open>Two requests in flight\<close>

text \<open>
  Node runs one handler at a time, up to its next \<open>await\<close>. Of the orders in which
  two requests can take turns, the one written out here lets both run their checks on
  the store before either of them saves: the first request's checks, the second
  request's checks, the first request's saves, the second request's saves.
\<close>

definition castVote_interleaved ::
  "date \<Rightarrow> objectId \<Rightarrow> body \<Rightarrow> date \<Rightarrow> objectId \<Rightarrow> body \<Rightarrow> store
     \<Rightarrow> response \<times> response \<times> store" where
  "castVote_interleaved now1 id1 b1 now2 id2 b2 s =
     (case castVote_check now1 b1 s of
        Inl r1 \<Rightarrow> (r1, castVote now2 id2 b2 s)
      | Inr p1 \<Rightarrow>
          (case castVote_check now2 b2 s of
             Inl r2 \<Rightarrow> (fst (castVote_commit now1 id1 b1 p1 s), r2,
                         snd (castVote_commit now1 id1 b1 p1 s))
           | Inr p2 \<Rightarrow>
               (fst (castVote_commit now1 id1 b1 p1 s),
                castVote_commit now2 id2 b2 p2 (snd (castVote_commit now1 id1 b1 p1 s)))))"


section \<open>A small store for the examples\<close>

definition poll1_id :: objectId where
  "poll1_id = ''64b7f0c2a1d3e4f5a6b7c8d9''"

definition vote1_id :: objectId where
  "vote1_id = ''64b7f0c2a1d3e4f5a6b70001''"

definition vote2_id :: objectId where
  "vote2_id = ''64b7f0c2a1d3e4f5a6b70002''"

definition petition1_id :: objectId where
  "petition1_id = ''64b7f0c2a1d3e4f5a6b7e001''"

definition poll1 :: poll where
  "poll1 = \<lparr>title = ''Should the city build a new bridge?'', description = None,
            poll_type = yes_no,
            options = [\<lparr>option_id = ''yes'', option_text = ''Yes''\<rparr>,
                       \<lparr>option_id = ''no'', option_text = ''No''\<rparr>],
            category = ''local'',
            isActive = True, startDate = 500, endDate = 1000, totalVotes = 0,
            priority = Some ''medium'', poll_updatedAt = 0\<rparr>"

definition petition1 :: petition where
  "petition1 = \<lparr>petition_title = ''Repair the road to the school'',
                petition_description = ''The road has been broken since the last monsoon.'',
                petition_category = ''local'', targetAuthority = ''Municipal Council'',
                createdBy = ''carol'', signatures = 0, signaturesRequired = 1000,
                status = ''active'', supporters = [],
                timeline = [\<lparr>event = ''Petition Created'', entry_date = 0,
                             details = Some ''Petition created by anonymous user''\<rparr>],
                adminNotes = None, updatedAt = 0\<rparr>"

definition store1 :: store where
  "store1 = \<lparr>polls = [poll1_id \<mapsto> poll1], votes = [],
             petitions = [petition1_id \<mapsto> petition1]\<rparr>"

definition empty_body :: body where
  "empty_body = \<lparr>req_userId = None, req_pollId = None, req_selectedOption = None,
                 req_rating = None, req_emoji = None, req_state = None, req_city = None,
                 req_ageGroup = None, req_gender = None, req_message = None,
                 req_status = None, req_adminNotes = None\<rparr>"

definition vote_body :: "string \<Rightarrow> string \<Rightarrow> body" where
  "vote_body u sel =
     empty_body\<lparr>req_userId := Some u, req_pollId := Some poll1_id,
                req_selectedOption := Some sel\<rparr>"

definition alice_vote :: vote where
  "alice_vote = new_Vote 600 vote1_id (vote_body ''alice'' ''yes'')"

definition store2 :: store where
  "store2 = store1\<lparr>polls := [poll1_id \<mapsto> poll1\<lparr>totalVotes := 1, poll_updatedAt := 600\<rparr>],
                   votes := [alice_vote]\<rparr>"

text \<open>A poll with three options and one vote for each.\<close>

definition poll3 :: poll where
  "poll3 = \<lparr>title = ''What should the council fund first?'', description = None,
            poll_type = multiple_choice,
            options = [\<lparr>option_id = ''a'', option_text = ''Roads''\<rparr>,
                       \<lparr>option_id = ''b'', option_text = ''Water''\<rparr>,
                       \<lparr>option_id = ''c'', option_text = ''Power''\<rparr>],
            category = ''local'',
            isActive = True, startDate = 0, endDate = 1000, totalVotes = 3,
            priority = Some ''medium'', poll_updatedAt = 0\<rparr>"

definition store3 :: store where
  "store3 = \<lparr>polls = [poll1_id \<mapsto> poll3],
             votes = [new_Vote 1 ''64b7f0c2a1d3e4f5a6b70011'' (vote_body ''u1'' ''a''),
                      new_Vote 2 ''64b7f0c2a1d3e4f5a6b70012'' (vote_body ''u2'' ''b''),
                      new_Vote 3 ''64b7f0c2a1d3e4f5a6b70013'' (vote_body ''u3'' ''c'')],
             petitions = Map.empty\<rparr>"

text \<open>
  The store with alice's vote for yes, after an administrator's \<open>updatePoll\<close> has
  replaced the options of the poll.
\<close>

definition store2_options_replaced :: store where
  "store2_options_replaced =
     store2\<lparr>polls := [poll1_id \<mapsto>
       poll1\<lparr>options := [\<lparr>option_id = ''agree'', option_text = ''Agree''\<rparr>,
                          \<lparr>option_id = ''disagree'', option_text = ''Disagree''\<rparr>],
             totalVotes := 1, poll_updatedAt := 650\<rparr>]\<rparr>"

text \<open>
  The store of the example after an administrator's \<open>updatePoll\<close> has given the yes/no
  poll a third option: the update validator reads a poll type that is undefined in an
  update and lets three options pass.
\<close>

definition store1_third_option :: store where
  "store1_third_option =
     store1\<lparr>polls := [poll1_id \<mapsto>
       poll1\<lparr>options := options poll1 @ [\<lparr>option_id = ''abstain'', option_text = ''Abstain''\<rparr>],
             poll_updatedAt := 550\<rparr>]\<rparr>"

text \<open>
  A store with 160 votes of 160 participants on the yes/no poll, 23 of them for yes.
\<close>

definition nth_vote :: "nat \<Rightarrow> vote" where
  "nth_vote k =
     new_Vote (600 + int k) (string_of_nat (100000000000000000000000 + k))
       (vote_body (''anon_'' @ string_of_nat k) (if k < 23 then ''yes'' else ''no''))"

definition store160 :: store where
  "store160 =
     store1\<lparr>polls := [poll1_id \<mapsto> poll1\<lparr>totalVotes := 160, poll_updatedAt := 759\<rparr>],
            votes := map nth_vote [0..<160]\<rparr>"


section \<open>Unfolding the handlers\<close>

lemmas example_defs =
  store1_def store2_def poll1_def poll1_id_def vote1_id_def vote2_id_def petition1_id_def
  petition1_def empty_body_def vote_body_def alice_vote_def poll3_def store3_def
  store2_options_replaced_def store1_third_option_def

lemmas store_op_defs =
  truthy_def Poll_findById_def Vote_findById_def ObjectId_isValid_def Vote_findOne_def
  new_Vote_def Vote_save_def Vote_validate_def valid_rating_def valid_ageGroup_def
  valid_gender_def Poll_save_totalVotes_def Poll_validate_def valid_options_def
  Vote_update_def vote_modified_def write_modified_def Vote_findByIdAndDelete_def
  Let_def


lemmas castVote_defs = castVote_def castVote_check_def castVote_commit_def

section \<open>The time window of castVote\<close>

text \<open>
  C5, as the code has it. A vote is cast only on a poll whose active flag is set and
  whose end date has not passed (\<open>now \<le> endDate\<close>, the end instant included); a
  request with its fields present on a poll that exists but is inactive or past its end
  date is answered with one of the two poll-closed replies and changes nothing in the
  store.
\<close>

theorem castVote_accepts_while_active_until_endDate:
  "(fst (castVote now newId b s) = VoteCast \<longrightarrow>
      (\<exists>i p. req_pollId b = Some i \<and> polls s i = Some p \<and> isActive p \<and> now \<le> endDate p)) \<and>
   (truthy (req_userId b) \<noteq> None \<and> truthy (req_selectedOption b) \<noteq> None \<and>
    req_pollId b = Some i \<and> ObjectId_isValid i \<and> polls s i = Some p \<and>
    \<not> (isActive p \<and> now \<le> endDate p) \<longrightarrow>
      PollClosed (fst (castVote now newId b s)) \<and> snd (castVote now newId b s) = s)"
  by (auto simp: castVote_def castVote_check_def truthy_def Poll_findById_def
      castVote_commit_def Let_def PollClosed_def ObjectId_isValid_def
      split: option.splits sum.splits if_splits)

text \<open>
  C5 at a concrete store: a vote at time 600 is cast on the poll that ends at 1000, and
  the same request at time 1001 is turned down with the store unchanged.
\<close>

theorem castVote_accepts_while_active_until_endDate_witness:
  "fst (castVote 600 vote1_id (vote_body ''alice'' ''yes'') store1) = VoteCast \<and>
   (\<exists>i p. req_pollId (vote_body ''alice'' ''yes'') = Some i \<and> polls store1 i = Some p \<and>
          isActive p \<and> 600 \<le> endDate p) \<and>
   \<not> (isActive poll1 \<and> 1001 \<le> endDate poll1) \<and>
   PollClosed (fst (castVote 1001 vote1_id (vote_body ''alice'' ''yes'') store1)) \<and>
   snd (castVote 1001 vote1_id (vote_body ''alice'' ''yes'') store1) = store1"
proof -
  have ok: "fst (castVote 600 vote1_id (vote_body ''alice'' ''yes'') store1) = VoteCast"
    by (simp add: example_defs castVote_defs store_op_defs)
  have pre: "truthy (req_userId (vote_body ''alice'' ''yes'')) \<noteq> None \<and>
    truthy (req_selectedOption (vote_body ''alice'' ''yes'')) \<noteq> None \<and>
    req_pollId (vote_body ''alice'' ''yes'') = Some poll1_id \<and> ObjectId_isValid poll1_id \<and>
    polls store1 poll1_id = Some poll1 \<and> \<not> (isActive poll1 \<and> 1001 \<le> endDate poll1)"
    by (simp add: example_defs truthy_def ObjectId_isValid_def)
  from castVote_accepts_while_active_until_endDate
         [of 600 vote1_id "vote_body ''alice'' ''yes''" store1] ok
  have a: "\<exists>i p. req_pollId (vote_body ''alice'' ''yes'') = Some i \<and> polls store1 i = Some p \<and>
             isActive p \<and> 600 \<le> endDate p"
    by blast
  from castVote_accepts_while_active_until_endDate
         [of 1001 vote1_id "vote_body ''alice'' ''yes''" store1 poll1_id poll1] pre
  have b: "PollClosed (fst (castVote 1001 vote1_id (vote_body ''alice'' ''yes'') store1)) \<and>
           snd (castVote 1001 vote1_id (vote_body ''alice'' ''yes'') store1) = store1"
    by blast
  from ok a b pre show ?thesis by blast
qed

text \<open>
  C5 as the specification words it fails at the closing instant: the poll ends at 1000,
  so time 1000 is outside the half-open interval up to the end date, and the vote cast
  at that very time is accepted and stored.
\<close>

theorem castVote_at_closing_instant_counterexample:
  "polls store1 poll1_id = Some poll1 \<and> \<not> (1000 < endDate poll1) \<and>
   fst (castVote 1000 vote1_id (vote_body ''alice'' ''yes'') store1) = VoteCast \<and>
   votes (snd (castVote 1000 vote1_id (vote_body ''alice'' ''yes'') store1)) =
     [new_Vote 1000 vote1_id (vote_body ''alice'' ''yes'')]"
  by (simp add: example_defs castVote_defs store_op_defs)

text \<open>
  The start date is not read by \<open>castVote\<close> either: the poll of the example opens at
  500 and a vote at time 100 is cast.
\<close>

lemma castVote_before_startDate:
  "startDate poll1 = 500 \<and>
   fst (castVote 100 vote1_id (vote_body ''alice'' ''yes'') store1) = VoteCast"
  by (simp add: example_defs castVote_defs store_op_defs)

section \<open>Status changes of a petition\<close>

text \<open>
  C2, as the code has it. \<open>updatePetitionStatus\<close> keeps no transition table: for a
  well-formed identifier of a stored petition and any requested status, whatever the
  current one, it succeeds, stores the requested status and appends one timeline entry.
  It fails only on a malformed identifier or a missing petition, and then the store is
  unchanged.
\<close>

theorem updatePetitionStatus_any_transition:
  "(ObjectId_isValid i \<and> petitions s i = Some p \<and> req_status b = Some st \<longrightarrow>
      fst (updatePetitionStatus now i b s) = StatusUpdated \<and>
      (\<exists>p'. petitions (snd (updatePetitionStatus now i b s)) i = Some p' \<and> status p' = st \<and>
            timeline p' = timeline p @ [status_entry now (Some st)])) \<and>
   (fst (updatePetitionStatus now i b s) \<noteq> StatusUpdated \<longrightarrow>
      snd (updatePetitionStatus now i b s) = s \<and>
      (\<not> ObjectId_isValid i \<or> petitions s i = None))"
  by (auto simp: updatePetitionStatus_def split: option.splits)

text \<open>
  C2 at a concrete store: the active petition of the example is set to submitted, and
  a request with a malformed identifier changes nothing.
\<close>

theorem updatePetitionStatus_any_transition_witness:
  "ObjectId_isValid petition1_id \<and> petitions store1 petition1_id = Some petition1 \<and>
   fst (updatePetitionStatus 10 petition1_id (empty_body\<lparr>req_status := Some ''submitted''\<rparr>)
          store1) = StatusUpdated \<and>
   (\<exists>p'. petitions (snd (updatePetitionStatus 10 petition1_id
                             (empty_body\<lparr>req_status := Some ''submitted''\<rparr>) store1))
            petition1_id = Some p' \<and> status p' = ''submitted'' \<and>
          timeline p' = timeline petition1 @ [status_entry 10 (Some ''submitted'')]) \<and>
   fst (updatePetitionStatus 10 ''42'' empty_body store1) \<noteq> StatusUpdated \<and>
   snd (updatePetitionStatus 10 ''42'' empty_body store1) = store1"
proof -
  have pre: "ObjectId_isValid petition1_id \<and> petitions store1 petition1_id = Some petition1 \<and>
      req_status (empty_body\<lparr>req_status := Some ''submitted''\<rparr>) = Some ''submitted''"
    by (simp add: example_defs ObjectId_isValid_def)
  have bad: "fst (updatePetitionStatus 10 ''42'' empty_body store1) \<noteq> StatusUpdated"
    by (simp add: updatePetitionStatus_def ObjectId_isValid_def)
  from updatePetitionStatus_any_transition
         [of petition1_id store1 petition1 "empty_body\<lparr>req_status := Some ''submitted''\<rparr>"
             "''submitted''" 10] pre
  have a: "fst (updatePetitionStatus 10 petition1_id
                  (empty_body\<lparr>req_status := Some ''submitted''\<rparr>) store1) = StatusUpdated \<and>
           (\<exists>p'. petitions (snd (updatePetitionStatus 10 petition1_id
                             (empty_body\<lparr>req_status := Some ''submitted''\<rparr>) store1))
                    petition1_id = Some p' \<and> status p' = ''submitted'' \<and>
                  timeline p' = timeline petition1 @ [status_entry 10 (Some ''submitted'')])"
    by blast
  from updatePetitionStatus_any_transition [of "''42''" store1 _ empty_body _ 10] bad
  have b: "snd (updatePetitionStatus 10 ''42'' empty_body store1) = store1"
    by blast
  from pre a bad b show ?thesis by blast
qed

text \<open>
  C2 as the specification words it fails: a resolved petition is set back to active,
  a pair that is none of the four transitions, and the request succeeds.
\<close>

theorem updatePetitionStatus_resolved_to_active_counterexample:
  "status (petition1\<lparr>status := ''resolved''\<rparr>) = ''resolved'' \<and>
   fst (updatePetitionStatus 10 petition1_id (empty_body\<lparr>req_status := Some ''active''\<rparr>)
          (store1\<lparr>petitions := [petition1_id \<mapsto> petition1\<lparr>status := ''resolved''\<rparr>]\<rparr>))
     = StatusUpdated \<and>
   map_option status
     (petitions (snd (updatePetitionStatus 10 petition1_id
                        (empty_body\<lparr>req_status := Some ''active''\<rparr>)
                        (store1\<lparr>petitions :=
                                   [petition1_id \<mapsto> petition1\<lparr>status := ''resolved''\<rparr>]\<rparr>)))
        petition1_id) = Some ''active''"
  by (simp add: example_defs updatePetitionStatus_def ObjectId_isValid_def)

text \<open>
  The handler mounted on the admin router accepts the same pair: it checks the name of
  the requested status, not the transition.
\<close>

lemma admin_patch_resolved_to_active:
  "fst (admin_patch_petition_status 10 petition1_id (empty_body\<lparr>req_status := Some ''active''\<rparr>)
          (store1\<lparr>petitions := [petition1_id \<mapsto> petition1\<lparr>status := ''resolved''\<rparr>]\<rparr>))
     = Response 200 ''Petition status updated''"
  by (simp add: example_defs admin_patch_petition_status_def ObjectId_isValid_def)

section \<open>Milestones\<close>

lemma length_filter_le_split:
  "k \<le> n \<Longrightarrow>
   length (filter (\<lambda>m. (n::int) \<ge> m) xs) =
   length (filter (\<lambda>m. k \<ge> m) xs) + length (filter (\<lambda>t. k < t \<and> t \<le> n) xs)"
  by (induction xs) auto

text \<open>
  C9, as the code has it. \<open>getMilestones\<close> is a function of the signature count alone,
  over the six fixed thresholds: it counts every threshold \<open>t\<close> with \<open>t \<le> n\<close>, which is
  what the specification's Evaluate gives from a previous count of 0. The thresholds
  crossed on the way from \<open>k\<close> to \<open>n\<close> are counted by the difference of two calls.
\<close>

theorem getMilestones_counts_reached:
  "set (reached_milestones n) = {t \<in> set milestones. t \<le> n} \<and>
   reached_milestones n = Evaluate_spec 0 n milestones \<and>
   (k \<le> n \<longrightarrow> getMilestones n = getMilestones k + length (Evaluate_spec k n milestones))"
proof (intro conjI)
  show "set (reached_milestones n) = {t \<in> set milestones. t \<le> n}"
    by (auto simp: reached_milestones_def)
  show "reached_milestones n = Evaluate_spec 0 n milestones"
    by (simp add: reached_milestones_def Evaluate_spec_def milestones_def)
  show "k \<le> n \<longrightarrow> getMilestones n = getMilestones k + length (Evaluate_spec k n milestones)"
    by (simp add: getMilestones_def reached_milestones_def Evaluate_spec_def
        length_filter_le_split)
qed

text \<open>C9 at the counts 95 and 105 of the specification's example.\<close>

theorem getMilestones_counts_reached_witness:
  "(95::int) \<le> 105 \<and> getMilestones 105 = getMilestones 95 + length (Evaluate_spec 95 105 milestones)
   \<and> getMilestones 105 = 1"
proof -
  have h: "(95::int) \<le> 105" by simp
  from getMilestones_counts_reached [of 105 95] h
  have "getMilestones 105 = getMilestones 95 + length (Evaluate_spec 95 105 milestones)"
    by blast
  moreover have "getMilestones 105 = 1"
    by (simp add: getMilestones_def reached_milestones_def milestones_def)
  ultimately show ?thesis using h by blast
qed

text \<open>
  C9 as the specification words it fails: from the count 150 to the count 600 only the
  threshold 500 lies in the interval, and \<open>getMilestones 600\<close> also counts the threshold
  100, which is not above 150.
\<close>

theorem getMilestones_ignores_previous_counterexample:
  "reached_milestones 600 = [100, 500] \<and> Evaluate_spec 150 600 milestones = [500] \<and>
   getMilestones 600 = 2 \<and> \<not> (150 < (100::int))"
  by (simp add: reached_milestones_def Evaluate_spec_def milestones_def getMilestones_def)

section \<open>Facts about the list operations\<close>

lemma find_Some_P: "find P xs = Some x \<Longrightarrow> P x"
  by (induction xs) (auto split: if_splits)

lemma find_Some_mem: "find P xs = Some x \<Longrightarrow> x \<in> set xs"
  by (induction xs) (auto split: if_splits)

lemma find_replace_first:
  "find P xs = Some x \<Longrightarrow> (\<And>y. P y \<Longrightarrow> P (f y)) \<Longrightarrow>
   find P (replace_first P f xs) = Some (f x)"
  by (induction xs) (auto split: if_splits)

lemma length_replace_first [simp]: "length (replace_first P f xs) = length xs"
  by (induction xs) auto

lemma filter_not_replace_first:
  "(\<And>y. P y \<Longrightarrow> P (f y)) \<Longrightarrow>
   filter (\<lambda>w. \<not> P w) (replace_first P f xs) = filter (\<lambda>w. \<not> P w) xs"
  by (induction xs) auto

lemma replace_first_const:
  "find P xs = Some x \<Longrightarrow> replace_first P f xs = replace_first P (\<lambda>_. f x) xs"
  by (induction xs) (auto split: if_splits)

lemma replace_first_same: "find P xs = Some x \<Longrightarrow> replace_first P (\<lambda>_. x) xs = xs"
  by (induction xs) (auto split: if_splits)

lemma length_filter_pos: "find P xs = Some x \<Longrightarrow> Q x \<Longrightarrow> 0 < length (filter Q xs)"
  by (induction xs) (auto split: if_splits)

lemma length_filter_delete_first:
  "find P xs = Some x \<Longrightarrow>
   length (filter Q (delete_first P xs)) = length (filter Q xs) - (if Q x then 1 else 0)"
proof (induction xs)
  case Nil
  then show ?case by simp
next
  case (Cons a xs)
  show ?case
  proof (cases "P a")
    case True
    with Cons.prems show ?thesis by auto
  next
    case False
    with Cons.prems have f: "find P xs = Some x" by simp
    from length_filter_pos [OF f, of Q] Cons.IH [OF f] False show ?thesis
      by (cases "Q x") auto
  qed
qed

section \<open>What a request did to the store\<close>

lemma castVote_success:
  assumes "fst (castVote now newId b s) = VoteCast"
  obtains u i sel p where "req_userId b = Some u" "u \<noteq> []" "req_pollId b = Some i"
    "ObjectId_isValid i" "req_selectedOption b = Some sel" "sel \<noteq> []" "polls s i = Some p"
    "isActive p" "now \<le> endDate p" "sel \<in> set (option_ids p)" "Vote_findOne u i s = None"
    "Poll_validate p"
    "snd (castVote now newId b s) =
       s\<lparr>votes := votes s @ [new_Vote now newId b],
         polls := (polls s)(i \<mapsto> p\<lparr>totalVotes := totalVotes p + 1, poll_updatedAt := now\<rparr>)\<rparr>"
proof -
  from assms obtain u i sel where f: "req_userId b = Some u" "u \<noteq> []" "req_pollId b = Some i"
      "i \<noteq> []" "req_selectedOption b = Some sel" "sel \<noteq> []"
    by (auto simp: castVote_def castVote_check_def truthy_def split: option.splits if_splits)
  from assms f obtain p where p: "ObjectId_isValid i" "polls s i = Some p"
    by (auto simp: castVote_def castVote_check_def truthy_def Poll_findById_def
        split: option.splits if_splits)
  from assms f p have c: "isActive p" "now \<le> endDate p"
      "find (\<lambda>option. option_id option = sel) (options p) \<noteq> None" "Vote_findOne u i s = None"
    by (auto simp: castVote_def castVote_check_def truthy_def Poll_findById_def
        split: option.splits if_splits)
  from c(3) have sel: "sel \<in> set (option_ids p)"
    by (auto simp: option_ids_def dest: find_Some_P find_Some_mem)
  from f p c have chk: "castVote_check now b s = Inr p"
    by (simp add: castVote_check_def truthy_def Poll_findById_def)
  have pid: "pollId (new_Vote now newId b) = i"
    using f by (simp add: new_Vote_def)
  from assms chk obtain s1 where s1: "Vote_save (new_Vote now newId b) s = Inr s1"
    by (auto simp: castVote_def castVote_commit_def Let_def split: sum.splits)
  then have s1': "s1 = s\<lparr>votes := votes s @ [new_Vote now newId b]\<rparr>"
    by (auto simp: Vote_save_def split: if_splits)
  from assms chk s1 pid obtain s2 where
    s2: "Poll_save_totalVotes i p (totalVotes p + 1) now s1 = Inr s2"
    and r: "snd (castVote now newId b s) = s2"
    by (auto simp: castVote_def castVote_commit_def Let_def split: sum.splits)
  from s2 have v: "Poll_validate p"
    by (auto simp: Poll_save_totalVotes_def split: if_splits)
  from s2 p v have "s2 = s1\<lparr>polls := (polls s1)(i \<mapsto>
      p\<lparr>totalVotes := totalVotes p + 1, poll_updatedAt := now\<rparr>)\<rparr>"
    by (auto simp: Poll_save_totalVotes_def s1')
  with r s1' have "snd (castVote now newId b s) =
       s\<lparr>votes := votes s @ [new_Vote now newId b],
         polls := (polls s)(i \<mapsto> p\<lparr>totalVotes := totalVotes p + 1, poll_updatedAt := now\<rparr>)\<rparr>"
    by simp
  with f p c sel v show thesis using that by blast
qed

text \<open>
  A \<open>castVote\<close> that does not succeed leaves the store as it was, but for one case: the
  vote was inserted and the save of the poll then failed its validators.
\<close>

lemma castVote_not_cast:
  assumes "fst (castVote now newId b s) \<noteq> VoteCast"
  shows "snd (castVote now newId b s) = s \<or>
    (\<exists>i sel p. req_pollId b = Some i \<and> req_selectedOption b = Some sel \<and> polls s i = Some p \<and>
       sel \<in> set (option_ids p) \<and> \<not> Poll_validate p \<and>
       castVote now newId b s =
         (CastVoteFailed, s\<lparr>votes := votes s @ [new_Vote now newId b]\<rparr>))"
proof (cases "castVote_check now b s")
  case (Inl r)
  then show ?thesis by (simp add: castVote_def)
next
  case (Inr p)
  then obtain u i sel where f: "req_userId b = Some u" "req_pollId b = Some i"
      "req_selectedOption b = Some sel"
    by (auto simp: castVote_check_def truthy_def split: option.splits if_splits)
  from Inr f have p: "polls s i = Some p"
      "find (\<lambda>option. option_id option = sel) (options p) \<noteq> None"
    by (auto simp: castVote_check_def truthy_def Poll_findById_def
        split: option.splits if_splits sum.splits)
  from p(2) have sel: "sel \<in> set (option_ids p)"
    by (auto simp: option_ids_def dest: find_Some_P find_Some_mem)
  have pid: "pollId (new_Vote now newId b) = i"
    using f by (simp add: new_Vote_def)
  show ?thesis
  proof (cases "Vote_save (new_Vote now newId b) s")
    case (Inl e)
    with Inr show ?thesis by (simp add: castVote_def castVote_commit_def)
  next
    case save: (Inr s1)
    then have s1: "s1 = s\<lparr>votes := votes s @ [new_Vote now newId b]\<rparr>"
      by (auto simp: Vote_save_def split: if_splits)
    show ?thesis
    proof (cases "Poll_validate p")
      case True
      with Inr save pid p s1 have "fst (castVote now newId b s) = VoteCast"
        by (simp add: castVote_def castVote_commit_def Poll_save_totalVotes_def)
      with assms show ?thesis by simp
    next
      case False
      with Inr save pid s1 have "castVote now newId b s =
          (CastVoteFailed, s\<lparr>votes := votes s @ [new_Vote now newId b]\<rparr>)"
        by (simp add: castVote_def castVote_commit_def Poll_save_totalVotes_def)
      with f p sel False show ?thesis by blast
    qed
  qed
qed

lemma updateVote_success:
  assumes "fst (updateVote now voteId b s) = VoteUpdated"
  obtains v p where "ObjectId_isValid voteId"
    "find (\<lambda>w. vote_id w = voteId) (votes s) = Some v"
    "polls s (pollId v) = Some p" "isActive p" "now \<le> endDate p"
    "snd (updateVote now voteId b s) =
       s\<lparr>votes := replace_first (\<lambda>w. vote_id w = voteId)
            (\<lambda>w. v\<lparr>selectedOption := (case truthy (req_selectedOption b) of
                                         Some sel \<Rightarrow> sel | None \<Rightarrow> selectedOption v),
                    rating := req_rating b, emoji := req_emoji b,
                    vote_updatedAt :=
                      (if (case truthy (req_selectedOption b) of
                             Some sel \<Rightarrow> sel | None \<Rightarrow> selectedOption v) \<noteq> selectedOption v \<or>
                          req_rating b \<noteq> rating v \<or> req_emoji b \<noteq> emoji v
                       then now else vote_updatedAt v)\<rparr>)
            (votes s)\<rparr>"
proof -
  let ?P = "\<lambda>w. vote_id w = voteId"
  from assms obtain v where v: "ObjectId_isValid voteId" "find ?P (votes s) = Some v"
    by (auto simp: updateVote_def Vote_findById_def split: option.splits sum.splits if_splits)
  then have vid: "vote_id v = voteId" by (auto dest: find_Some_P)
  from assms v obtain p where p: "polls s (pollId v) = Some p" "isActive p" "now \<le> endDate p"
    by (auto simp: updateVote_def Vote_findById_def Poll_findById_def
        split: option.splits sum.splits if_splits)
  let ?a = "v\<lparr>selectedOption := (case truthy (req_selectedOption b) of
                                    Some sel \<Rightarrow> sel | None \<Rightarrow> selectedOption v),
               rating := req_rating b, emoji := req_emoji b\<rparr>"
  from assms v p obtain s' where u: "Vote_update v ?a now s = Inr s'"
    and r: "snd (updateVote now voteId b s) = s'"
    by (auto simp: updateVote_def Vote_findById_def Poll_findById_def Let_def
        split: option.splits sum.splits if_splits)
  have "s' = s\<lparr>votes := replace_first ?P
            (\<lambda>w. ?a\<lparr>vote_updatedAt := (if vote_modified v ?a then now else vote_updatedAt v)\<rparr>)
            (votes s)\<rparr>"
  proof (cases "vote_modified v ?a")
    case True
    with u have "s' = s\<lparr>votes := replace_first ?P (write_modified v ?a now) (votes s)\<rparr>"
      by (auto simp: Vote_update_def vid split: if_splits)
    moreover have "write_modified v ?a now v = ?a\<lparr>vote_updatedAt := now\<rparr>"
      by (simp add: write_modified_def)
    ultimately show ?thesis
      using True replace_first_const [OF v(2), of "write_modified v ?a now"] by simp
  next
    case False
    with u have "s' = s" by (auto simp: Vote_update_def split: if_splits)
    moreover from False have "?a\<lparr>vote_updatedAt := vote_updatedAt v\<rparr> = v"
      by (simp add: vote_modified_def)
    ultimately show ?thesis
      using False replace_first_same [OF v(2)] by simp
  qed
  with r have "snd (updateVote now voteId b s) =
       s\<lparr>votes := replace_first ?P
            (\<lambda>w. v\<lparr>selectedOption := (case truthy (req_selectedOption b) of
                                         Some sel \<Rightarrow> sel | None \<Rightarrow> selectedOption v),
                    rating := req_rating b, emoji := req_emoji b,
                    vote_updatedAt :=
                      (if (case truthy (req_selectedOption b) of
                             Some sel \<Rightarrow> sel | None \<Rightarrow> selectedOption v) \<noteq> selectedOption v \<or>
                          req_rating b \<noteq> rating v \<or> req_emoji b \<noteq> emoji v
                       then now else vote_updatedAt v)\<rparr>)
            (votes s)\<rparr>"
    by (simp add: vote_modified_def)
  with v p show thesis using that by blast
qed

lemma updateVote_unchanged:
  "fst (updateVote now voteId b s) \<noteq> VoteUpdated \<Longrightarrow> snd (updateVote now voteId b s) = s"
  by (auto simp: updateVote_def Vote_findById_def Poll_findById_def Let_def Vote_update_def
      split: option.splits sum.splits if_splits)

lemma deleteVote_success:
  assumes "fst (deleteVote now voteId s) = VoteDeleted"
  obtains v p where "ObjectId_isValid voteId"
    "find (\<lambda>w. vote_id w = voteId) (votes s) = Some v"
    "polls s (pollId v) = Some p" "isActive p" "now \<le> endDate p" "Poll_validate p"
    "snd (deleteVote now voteId s) =
       s\<lparr>votes := delete_first (\<lambda>w. vote_id w = voteId) (votes s),
         polls := (if max 0 (totalVotes p - 1) = totalVotes p then polls s
                   else (polls s)(pollId v \<mapsto> p\<lparr>totalVotes := max 0 (totalVotes p - 1),
                                                poll_updatedAt := now\<rparr>))\<rparr>"
  using assms
  by (auto simp: deleteVote_def Vote_findById_def Poll_findById_def Let_def
      Vote_findByIdAndDelete_def Poll_save_totalVotes_def
      split: option.splits sum.splits if_splits)

text \<open>
  A \<open>deleteVote\<close> that does not succeed leaves the store as it was, but for one case:
  the vote was deleted and the save of the poll then failed its validators.
\<close>

lemma deleteVote_not_deleted:
  assumes "fst (deleteVote now voteId s) \<noteq> VoteDeleted"
  shows "snd (deleteVote now voteId s) = s \<or>
    (\<exists>v p. find (\<lambda>w. vote_id w = voteId) (votes s) = Some v \<and> polls s (pollId v) = Some p \<and>
       \<not> Poll_validate p \<and>
       deleteVote now voteId s =
         (DeleteVoteFailed, s\<lparr>votes := delete_first (\<lambda>w. vote_id w = voteId) (votes s)\<rparr>))"
  using assms
  by (auto simp: deleteVote_def Vote_findById_def Poll_findById_def Let_def
      Vote_findByIdAndDelete_def Poll_save_totalVotes_def
      split: option.splits sum.splits if_splits)



section \<open>The cached vote counter\<close>

lemma Poll_validate_totalVotes [simp]:
  "Poll_validate (p\<lparr>totalVotes := n, poll_updatedAt := t\<rparr>) = Poll_validate p"
  by (simp add: Poll_validate_def)

lemma castVote_counter:
  assumes "counter_consistent s" "polls_valid s"
  shows "counter_consistent (snd (castVote now newId b s)) \<and>
         polls_valid (snd (castVote now newId b s))"
proof (cases "fst (castVote now newId b s) = VoteCast")
  case False
  from castVote_not_cast [OF False] assms(2) have "snd (castVote now newId b s) = s"
    by (auto simp: polls_valid_def)
  then show ?thesis using assms by simp
next
  case True
  then obtain u i p where b: "req_pollId b = Some i" and p: "polls s i = Some p"
    and s': "snd (castVote now newId b s) =
       s\<lparr>votes := votes s @ [new_Vote now newId b],
         polls := (polls s)(i \<mapsto> p\<lparr>totalVotes := totalVotes p + 1, poll_updatedAt := now\<rparr>)\<rparr>"
    by (elim castVote_success) blast
  have pv: "pollId (new_Vote now newId b) = i" using b by (simp add: new_Vote_def)
  have "counter_consistent (snd (castVote now newId b s))"
    unfolding s' using assms(1) p pv
    by (auto simp: counter_consistent_def votes_of_def)
  moreover have "polls_valid (snd (castVote now newId b s))"
    unfolding s' using assms(2) p
    by (auto simp: polls_valid_def)
  ultimately show ?thesis by simp
qed

lemma deleteVote_counter:
  assumes "counter_consistent s" "polls_valid s"
  shows "counter_consistent (snd (deleteVote now voteId s)) \<and>
         polls_valid (snd (deleteVote now voteId s))"
proof (cases "fst (deleteVote now voteId s) = VoteDeleted")
  case False
  from deleteVote_not_deleted [OF False] assms(2) have "snd (deleteVote now voteId s) = s"
    by (auto simp: polls_valid_def)
  then show ?thesis using assms by simp
next
  case True
  then obtain v p where v: "find (\<lambda>w. vote_id w = voteId) (votes s) = Some v"
    and p: "polls s (pollId v) = Some p"
    and s0: "snd (deleteVote now voteId s) =
       s\<lparr>votes := delete_first (\<lambda>w. vote_id w = voteId) (votes s),
         polls := (if max 0 (totalVotes p - 1) = totalVotes p then polls s
                   else (polls s)(pollId v \<mapsto> p\<lparr>totalVotes := max 0 (totalVotes p - 1),
                                                poll_updatedAt := now\<rparr>))\<rparr>"
    by (elim deleteVote_success) blast
  have pos: "0 < length (filter (\<lambda>w. pollId w = pollId v) (votes s))"
    using v by (rule length_filter_pos) simp
  have tot: "totalVotes p = int (length (filter (\<lambda>w. pollId w = pollId v) (votes s)))"
    using assms(1) p by (simp add: counter_consistent_def votes_of_def)
  obtain m where m: "length (filter (\<lambda>w. pollId w = pollId v) (votes s)) = Suc m"
    using pos by (cases "length (filter (\<lambda>w. pollId w = pollId v) (votes s))") auto
  have mx: "max 0 (totalVotes p - 1) = int m" using tot m by simp
  have s': "snd (deleteVote now voteId s) =
       s\<lparr>votes := delete_first (\<lambda>w. vote_id w = voteId) (votes s),
         polls := (polls s)(pollId v \<mapsto> p\<lparr>totalVotes := int m, poll_updatedAt := now\<rparr>)\<rparr>"
    unfolding s0 mx using tot m by simp
  have "counter_consistent (snd (deleteVote now voteId s))"
    unfolding s' counter_consistent_def votes_of_def
  proof (intro allI impI)
    fix i q
    assume q: "polls (s\<lparr>votes := delete_first (\<lambda>w. vote_id w = voteId) (votes s),
         polls := (polls s)(pollId v \<mapsto> p\<lparr>totalVotes := int m, poll_updatedAt := now\<rparr>)\<rparr>) i
         = Some q"
    show "totalVotes q = int (length (filter (\<lambda>va. pollId va = i)
        (votes (s\<lparr>votes := delete_first (\<lambda>w. vote_id w = voteId) (votes s),
         polls := (polls s)(pollId v \<mapsto> p\<lparr>totalVotes := int m, poll_updatedAt := now\<rparr>)\<rparr>))))"
    proof (cases "i = pollId v")
      case True
      with q have "q = p\<lparr>totalVotes := int m, poll_updatedAt := now\<rparr>" by simp
      then show ?thesis using True m
        by (simp add: length_filter_delete_first [OF v])
    next
      case False
      with q have "polls s i = Some q" by simp
      then have "totalVotes q = int (length (filter (\<lambda>w. pollId w = i) (votes s)))"
        using assms(1) by (simp add: counter_consistent_def votes_of_def)
      then show ?thesis using False
        by (simp add: length_filter_delete_first [OF v])
    qed
  qed
  moreover have "polls_valid (snd (deleteVote now voteId s))"
    unfolding s' using assms(2) p
    by (auto simp: polls_valid_def)
  ultimately show ?thesis by simp
qed

lemma store1_counter_consistent: "counter_consistent store1"
  by (simp add: counter_consistent_def votes_of_def example_defs)

lemma store1_polls_valid: "polls_valid store1"
  by (simp add: polls_valid_def example_defs Poll_validate_def valid_options_def)

text \<open>
  C4, as the code has it. When the requests run one after the other, each to its end
  before the next starts, a store whose counters agree with its votes and whose polls
  pass the validators of their schema is still such a store after every prefix of a
  sequence of \<open>castVote\<close> and \<open>deleteVote\<close> requests.
\<close>

theorem counter_consistent_sequential:
  "counter_consistent s \<Longrightarrow> polls_valid s \<Longrightarrow>
   counter_consistent (run_vote_ops (take k ops) s) \<and>
   polls_valid (run_vote_ops (take k ops) s)"
proof (induction ops arbitrary: s k)
  case Nil
  then show ?case by simp
next
  case (Cons x xs)
  show ?case
  proof (cases k)
    case 0
    then show ?thesis using Cons.prems by simp
  next
    case (Suc j)
    have "counter_consistent (run_vote_op x s) \<and> polls_valid (run_vote_op x s)"
      using Cons.prems by (cases x) (simp_all add: castVote_counter deleteVote_counter)
    then show ?thesis using Cons.IH Suc by simp
  qed
qed

text \<open>
  C4 at a concrete run: two votes are cast and the first is retracted; one vote and a
  counter of 1 remain.
\<close>

theorem counter_consistent_sequential_witness:
  "counter_consistent store1 \<and> polls_valid store1 \<and>
   counter_consistent
     (run_vote_ops (take 3 [CastVote 600 vote1_id (vote_body ''alice'' ''yes''),
                            CastVote 601 vote2_id (vote_body ''bob'' ''no''),
                            RetractVote 602 vote1_id]) store1) \<and>
   run_vote_ops [CastVote 600 vote1_id (vote_body ''alice'' ''yes''),
                 CastVote 601 vote2_id (vote_body ''bob'' ''no''),
                 RetractVote 602 vote1_id] store1 =
     store1\<lparr>votes := [new_Vote 601 vote2_id (vote_body ''bob'' ''no'')],
            polls := [poll1_id \<mapsto> poll1\<lparr>totalVotes := 1, poll_updatedAt := 602\<rparr>]\<rparr>"
proof -
  have run: "run_vote_ops [CastVote 600 vote1_id (vote_body ''alice'' ''yes''),
                 CastVote 601 vote2_id (vote_body ''bob'' ''no''),
                 RetractVote 602 vote1_id] store1 =
     store1\<lparr>votes := [new_Vote 601 vote2_id (vote_body ''bob'' ''no'')],
            polls := [poll1_id \<mapsto> poll1\<lparr>totalVotes := 1, poll_updatedAt := 602\<rparr>]\<rparr>"
    by (simp add: example_defs castVote_defs deleteVote_def store_op_defs)
  from counter_consistent_sequential [OF store1_counter_consistent store1_polls_valid, of 3
         "[CastVote 600 vote1_id (vote_body ''alice'' ''yes''),
           CastVote 601 vote2_id (vote_body ''bob'' ''no''),
           RetractVote 602 vote1_id]"]
    store1_counter_consistent store1_polls_valid run
  show ?thesis by blast
qed

text \<open>
  C4 as the specification words it fails twice over. The insert of the vote and the
  write of the counter are two saves, and the second can fail after the first: on the
  yes/no poll that was given a third option, a single \<open>castVote\<close> stores the vote, the
  save of the poll fails the validator of the options, the request is answered 500 and
  the counter stays at 0 for 1 vote. And the counter is written from the copy of the
  poll that the handler loaded: when two participants' requests both load the poll of
  the first example before either saves, both votes are stored, both requests succeed,
  and the counter ends at 1 for 2 votes.
\<close>

theorem counter_lost_update_counterexample:
  "counter_consistent store1_third_option \<and>
   castVote 600 vote1_id (vote_body ''alice'' ''yes'') store1_third_option =
     (CastVoteFailed,
      store1_third_option\<lparr>votes := [new_Vote 600 vote1_id (vote_body ''alice'' ''yes'')]\<rparr>) \<and>
   \<not> counter_consistent
     (store1_third_option\<lparr>votes := [new_Vote 600 vote1_id (vote_body ''alice'' ''yes'')]\<rparr>) \<and>
   counter_consistent store1 \<and>
   castVote_interleaved 600 vote1_id (vote_body ''alice'' ''yes'')
                        601 vote2_id (vote_body ''bob'' ''no'') store1 =
     (VoteCast, VoteCast,
      store1\<lparr>votes := [new_Vote 600 vote1_id (vote_body ''alice'' ''yes''),
                        new_Vote 601 vote2_id (vote_body ''bob'' ''no'')],
             polls := [poll1_id \<mapsto> poll1\<lparr>totalVotes := 1, poll_updatedAt := 601\<rparr>]\<rparr>) \<and>
   length (votes_of poll1_id
     (store1\<lparr>votes := [new_Vote 600 vote1_id (vote_body ''alice'' ''yes''),
                        new_Vote 601 vote2_id (vote_body ''bob'' ''no'')],
             polls := [poll1_id \<mapsto> poll1\<lparr>totalVotes := 1, poll_updatedAt := 601\<rparr>]\<rparr>)) = 2 \<and>
   \<not> counter_consistent
     (store1\<lparr>votes := [new_Vote 600 vote1_id (vote_body ''alice'' ''yes''),
                        new_Vote 601 vote2_id (vote_body ''bob'' ''no'')],
             polls := [poll1_id \<mapsto> poll1\<lparr>totalVotes := 1, poll_updatedAt := 601\<rparr>]\<rparr>)"
proof -
  let ?t = "store1_third_option\<lparr>votes := [new_Vote 600 vote1_id (vote_body ''alice'' ''yes'')]\<rparr>"
  let ?r = "store1\<lparr>votes := [new_Vote 600 vote1_id (vote_body ''alice'' ''yes''),
                        new_Vote 601 vote2_id (vote_body ''bob'' ''no'')],
             polls := [poll1_id \<mapsto> poll1\<lparr>totalVotes := 1, poll_updatedAt := 601\<rparr>]\<rparr>"
  have c3: "counter_consistent store1_third_option"
    by (simp add: counter_consistent_def votes_of_def example_defs)
  have seq: "castVote 600 vote1_id (vote_body ''alice'' ''yes'') store1_third_option =
      (CastVoteFailed, ?t)"
    by (simp add: example_defs castVote_defs store_op_defs)
  have nt: "\<not> counter_consistent ?t"
    unfolding counter_consistent_def
    apply (simp only: not_all)
    apply (rule exI [of _ poll1_id])
    apply (rule exI [of _ "the (polls store1_third_option poll1_id)"])
    apply (simp add: votes_of_def example_defs new_Vote_def)
    done
  have run: "castVote_interleaved 600 vote1_id (vote_body ''alice'' ''yes'')
                        601 vote2_id (vote_body ''bob'' ''no'') store1 =
     (VoteCast, VoteCast, ?r)"
    by (simp add: castVote_interleaved_def example_defs castVote_defs store_op_defs)
  have l: "length (votes_of poll1_id ?r) = 2"
    by (simp add: votes_of_def example_defs new_Vote_def)
  have n: "\<not> counter_consistent ?r"
    unfolding counter_consistent_def
    apply (simp only: not_all)
    apply (rule exI [of _ poll1_id])
    apply (rule exI [of _ "poll1\<lparr>totalVotes := 1, poll_updatedAt := 601\<rparr>"])
    using l apply simp
    done
  from c3 seq nt store1_counter_consistent run l n show ?thesis by blast
qed

section \<open>Who may update or retract a vote\<close>

text \<open>
  C6, as the code has it. \<open>updateVote\<close> and \<open>deleteVote\<close> succeed only on a vote whose
  poll is active and not past its end date. They find the vote by the identifier in
  the path and read no participant id: \<open>deleteVote\<close> has no body to read one from, and
  the result of \<open>updateVote\<close> is the same whatever \<open>userId\<close> the body carries.
\<close>

theorem updateVote_deleteVote_ignore_caller:
  "(fst (updateVote now voteId b s) = VoteUpdated \<longrightarrow>
      (\<exists>v p. find (\<lambda>w. vote_id w = voteId) (votes s) = Some v \<and>
             polls s (pollId v) = Some p \<and> isActive p \<and> now \<le> endDate p)) \<and>
   (fst (deleteVote now voteId s) = VoteDeleted \<longrightarrow>
      (\<exists>v p. find (\<lambda>w. vote_id w = voteId) (votes s) = Some v \<and>
             polls s (pollId v) = Some p \<and> isActive p \<and> now \<le> endDate p)) \<and>
   updateVote now voteId (b\<lparr>req_userId := caller\<rparr>) s = updateVote now voteId b s"
proof (intro conjI impI)
  assume "fst (updateVote now voteId b s) = VoteUpdated"
  then show "\<exists>v p. find (\<lambda>w. vote_id w = voteId) (votes s) = Some v \<and>
             polls s (pollId v) = Some p \<and> isActive p \<and> now \<le> endDate p"
    by (elim updateVote_success) blast
next
  assume "fst (deleteVote now voteId s) = VoteDeleted"
  then show "\<exists>v p. find (\<lambda>w. vote_id w = voteId) (votes s) = Some v \<and>
             polls s (pollId v) = Some p \<and> isActive p \<and> now \<le> endDate p"
    by (elim deleteVote_success) blast
next
  show "updateVote now voteId (b\<lparr>req_userId := caller\<rparr>) s = updateVote now voteId b s"
    by (simp add: updateVote_def Let_def split: sum.splits option.splits)
qed

text \<open>
  C6 at a concrete store: alice's vote is updated at time 700, then retracted, and the
  update comes out the same when the body names bob.
\<close>

theorem updateVote_deleteVote_ignore_caller_witness:
  "fst (updateVote 700 vote1_id (empty_body\<lparr>req_selectedOption := Some ''no''\<rparr>) store2)
     = VoteUpdated \<and>
   fst (deleteVote 700 vote1_id store2) = VoteDeleted \<and>
   (\<exists>v p. find (\<lambda>w. vote_id w = vote1_id) (votes store2) = Some v \<and>
          polls store2 (pollId v) = Some p \<and> isActive p \<and> 700 \<le> endDate p) \<and>
   updateVote 700 vote1_id
     (empty_body\<lparr>req_selectedOption := Some ''no'', req_userId := Some ''bob''\<rparr>) store2 =
   updateVote 700 vote1_id (empty_body\<lparr>req_selectedOption := Some ''no''\<rparr>) store2"
proof -
  have u: "fst (updateVote 700 vote1_id (empty_body\<lparr>req_selectedOption := Some ''no''\<rparr>) store2)
     = VoteUpdated"
    by (simp add: example_defs updateVote_def store_op_defs)
  have d: "fst (deleteVote 700 vote1_id store2) = VoteDeleted"
    by (simp add: example_defs deleteVote_def store_op_defs)
  note inst = updateVote_deleteVote_ignore_caller
    [of 700 vote1_id "empty_body\<lparr>req_selectedOption := Some ''no''\<rparr>" store2 "Some ''bob''"]
  from inst u d show ?thesis by blast
qed

text \<open>
  C6 as the specification words it fails: the vote stored for alice is changed by a
  request that names mallory, and it is deleted by a request that names nobody.
\<close>

theorem updateVote_by_other_participant_counterexample:
  "votes store2 = [alice_vote] \<and> userId alice_vote = ''alice'' \<and>
   updateVote 700 vote1_id
     (empty_body\<lparr>req_userId := Some ''mallory'', req_selectedOption := Some ''no''\<rparr>) store2 =
     (VoteUpdated,
      store2\<lparr>votes := [alice_vote\<lparr>selectedOption := ''no'', vote_updatedAt := 700\<rparr>]\<rparr>) \<and>
   deleteVote 700 vote1_id store2 =
     (VoteDeleted,
      store1\<lparr>polls := [poll1_id \<mapsto> poll1\<lparr>totalVotes := 0, poll_updatedAt := 700\<rparr>]\<rparr>)"
  by (simp add: example_defs updateVote_def deleteVote_def store_op_defs)

section \<open>What updateVote writes\<close>

text \<open>
  C10, as the code has it. An \<open>updateVote\<close> that does not succeed changes nothing. It
  succeeds whenever the vote and its poll are found, the poll is active and not past
  its end date and the vote with the assigned values passes the validators of the
  schema. A successful \<open>updateVote\<close> keeps the stored option when the body carries no
  option or an empty one and stores the body's rating and emoji as they are (an absent
  one erases the stored value); when one of the three values changed, it also stamps
  \<open>updatedAt\<close> with the time of the save. It changes nothing else: the other fields of
  the vote, the other votes, the polls with their counters, and the petitions stay as
  they were.
\<close>

theorem updateVote_overwrites_rating_and_emoji:
  "(fst (updateVote now voteId b s) \<noteq> VoteUpdated \<longrightarrow> snd (updateVote now voteId b s) = s) \<and>
   (ObjectId_isValid voteId \<and> find (\<lambda>w. vote_id w = voteId) (votes s) = Some v \<and>
    ObjectId_isValid (pollId v) \<and> polls s (pollId v) = Some p \<and> isActive p \<and>
    now \<le> endDate p \<and>
    Vote_validate (v\<lparr>selectedOption := (case truthy (req_selectedOption b) of
                                           Some sel \<Rightarrow> sel | None \<Rightarrow> selectedOption v),
                      rating := req_rating b, emoji := req_emoji b\<rparr>) \<longrightarrow>
      fst (updateVote now voteId b s) = VoteUpdated) \<and>
   (fst (updateVote now voteId b s) = VoteUpdated \<longrightarrow>
     (\<exists>v. find (\<lambda>w. vote_id w = voteId) (votes s) = Some v \<and>
          find (\<lambda>w. vote_id w = voteId) (votes (snd (updateVote now voteId b s))) =
            Some (v\<lparr>selectedOption := (case truthy (req_selectedOption b) of
                                         Some sel \<Rightarrow> sel | None \<Rightarrow> selectedOption v),
                    rating := req_rating b, emoji := req_emoji b,
                    vote_updatedAt :=
                      (if (case truthy (req_selectedOption b) of
                             Some sel \<Rightarrow> sel | None \<Rightarrow> selectedOption v) \<noteq> selectedOption v \<or>
                          req_rating b \<noteq> rating v \<or> req_emoji b \<noteq> emoji v
                       then now else vote_updatedAt v)\<rparr>)) \<and>
     length (votes (snd (updateVote now voteId b s))) = length (votes s) \<and>
     filter (\<lambda>w. vote_id w \<noteq> voteId) (votes (snd (updateVote now voteId b s))) =
       filter (\<lambda>w. vote_id w \<noteq> voteId) (votes s) \<and>
     polls (snd (updateVote now voteId b s)) = polls s \<and>
     petitions (snd (updateVote now voteId b s)) = petitions s)"
proof (intro conjI)
  show "fst (updateVote now voteId b s) \<noteq> VoteUpdated \<longrightarrow> snd (updateVote now voteId b s) = s"
    by (simp add: updateVote_unchanged)
next
  show "ObjectId_isValid voteId \<and> find (\<lambda>w. vote_id w = voteId) (votes s) = Some v \<and>
    ObjectId_isValid (pollId v) \<and> polls s (pollId v) = Some p \<and> isActive p \<and>
    now \<le> endDate p \<and>
    Vote_validate (v\<lparr>selectedOption := (case truthy (req_selectedOption b) of
                                           Some sel \<Rightarrow> sel | None \<Rightarrow> selectedOption v),
                      rating := req_rating b, emoji := req_emoji b\<rparr>) \<longrightarrow>
      fst (updateVote now voteId b s) = VoteUpdated"
  proof
    assume a: "ObjectId_isValid voteId \<and> find (\<lambda>w. vote_id w = voteId) (votes s) = Some v \<and>
      ObjectId_isValid (pollId v) \<and> polls s (pollId v) = Some p \<and> isActive p \<and>
      now \<le> endDate p \<and>
      Vote_validate (v\<lparr>selectedOption := (case truthy (req_selectedOption b) of
                                             Some sel \<Rightarrow> sel | None \<Rightarrow> selectedOption v),
                        rating := req_rating b, emoji := req_emoji b\<rparr>)"
    then have "vote_id v = voteId" "v \<in> set (votes s)"
      by (auto dest: find_Some_P find_Some_mem)
    then have ex: "list_ex (\<lambda>w. vote_id w = vote_id v) (votes s)"
      by (auto simp: list_ex_iff)
    from a ex show "fst (updateVote now voteId b s) = VoteUpdated"
      by (simp add: updateVote_def Vote_findById_def Poll_findById_def Vote_update_def Let_def)
  qed
next
  show "fst (updateVote now voteId b s) = VoteUpdated \<longrightarrow>
     (\<exists>v. find (\<lambda>w. vote_id w = voteId) (votes s) = Some v \<and>
          find (\<lambda>w. vote_id w = voteId) (votes (snd (updateVote now voteId b s))) =
            Some (v\<lparr>selectedOption := (case truthy (req_selectedOption b) of
                                         Some sel \<Rightarrow> sel | None \<Rightarrow> selectedOption v),
                    rating := req_rating b, emoji := req_emoji b,
                    vote_updatedAt :=
                      (if (case truthy (req_selectedOption b) of
                             Some sel \<Rightarrow> sel | None \<Rightarrow> selectedOption v) \<noteq> selectedOption v \<or>
                          req_rating b \<noteq> rating v \<or> req_emoji b \<noteq> emoji v
                       then now else vote_updatedAt v)\<rparr>)) \<and>
     length (votes (snd (updateVote now voteId b s))) = length (votes s) \<and>
     filter (\<lambda>w. vote_id w \<noteq> voteId) (votes (snd (updateVote now voteId b s))) =
       filter (\<lambda>w. vote_id w \<noteq> voteId) (votes s) \<and>
     polls (snd (updateVote now voteId b s)) = polls s \<and>
     petitions (snd (updateVote now voteId b s)) = petitions s"
  proof
    assume ok: "fst (updateVote now voteId b s) = VoteUpdated"
    then obtain v p where v: "find (\<lambda>w. vote_id w = voteId) (votes s) = Some v"
      and s': "snd (updateVote now voteId b s) =
        s\<lparr>votes := replace_first (\<lambda>w. vote_id w = voteId)
            (\<lambda>w. v\<lparr>selectedOption := (case truthy (req_selectedOption b) of
                                         Some sel \<Rightarrow> sel | None \<Rightarrow> selectedOption v),
                    rating := req_rating b, emoji := req_emoji b,
                    vote_updatedAt :=
                      (if (case truthy (req_selectedOption b) of
                             Some sel \<Rightarrow> sel | None \<Rightarrow> selectedOption v) \<noteq> selectedOption v \<or>
                          req_rating b \<noteq> rating v \<or> req_emoji b \<noteq> emoji v
                       then now else vote_updatedAt v)\<rparr>)
            (votes s)\<rparr>"
      by (rule updateVote_success)
    from v have vid: "vote_id v = voteId" by (auto dest: find_Some_P)
    show "(\<exists>v. find (\<lambda>w. vote_id w = voteId) (votes s) = Some v \<and>
          find (\<lambda>w. vote_id w = voteId) (votes (snd (updateVote now voteId b s))) =
            Some (v\<lparr>selectedOption := (case truthy (req_selectedOption b) of
                                         Some sel \<Rightarrow> sel | None \<Rightarrow> selectedOption v),
                    rating := req_rating b, emoji := req_emoji b,
                    vote_updatedAt :=
                      (if (case truthy (req_selectedOption b) of
                             Some sel \<Rightarrow> sel | None \<Rightarrow> selectedOption v) \<noteq> selectedOption v \<or>
                          req_rating b \<noteq> rating v \<or> req_emoji b \<noteq> emoji v
                       then now else vote_updatedAt v)\<rparr>)) \<and>
     length (votes (snd (updateVote now voteId b s))) = length (votes s) \<and>
     filter (\<lambda>w. vote_id w \<noteq> voteId) (votes (snd (updateVote now voteId b s))) =
       filter (\<lambda>w. vote_id w \<noteq> voteId) (votes s) \<and>
     polls (snd (updateVote now voteId b s)) = polls s \<and>
     petitions (snd (updateVote now voteId b s)) = petitions s"
      unfolding s' using v vid
      by (simp add: find_replace_first filter_not_replace_first)
  qed
qed

text \<open>
  C10 at a concrete store: alice's vote carries the rating 3 and an emoji; an update
  at time 700 whose body carries the rating 8 and another emoji, and no option,
  succeeds, keeps the option yes and stores the two supplied values.
\<close>

theorem updateVote_overwrites_rating_and_emoji_witness:
  "fst (updateVote 700 vote1_id (empty_body\<lparr>req_rating := Some 8, req_emoji := Some ''+1''\<rparr>)
          (store2\<lparr>votes := [alice_vote\<lparr>rating := Some 3, emoji := Some ''-1''\<rparr>]\<rparr>))
     = VoteUpdated \<and>
   find (\<lambda>w. vote_id w = vote1_id)
     (votes (snd (updateVote 700 vote1_id
                    (empty_body\<lparr>req_rating := Some 8, req_emoji := Some ''+1''\<rparr>)
                    (store2\<lparr>votes := [alice_vote\<lparr>rating := Some 3, emoji := Some ''-1''\<rparr>]\<rparr>))))
     = Some (alice_vote\<lparr>rating := Some 8, emoji := Some ''+1'', vote_updatedAt := 700\<rparr>) \<and>
   selectedOption alice_vote = ''yes'' \<and>
   polls (snd (updateVote 700 vote1_id
                 (empty_body\<lparr>req_rating := Some 8, req_emoji := Some ''+1''\<rparr>)
                 (store2\<lparr>votes := [alice_vote\<lparr>rating := Some 3, emoji := Some ''-1''\<rparr>]\<rparr>)))
     = polls store2"
proof -
  let ?b = "empty_body\<lparr>req_rating := Some 8, req_emoji := Some ''+1''\<rparr>"
  let ?v = "alice_vote\<lparr>rating := Some 3, emoji := Some ''-1''\<rparr>"
  let ?s = "store2\<lparr>votes := [?v]\<rparr>"
  have pre: "ObjectId_isValid vote1_id \<and> find (\<lambda>w. vote_id w = vote1_id) (votes ?s) = Some ?v \<and>
    ObjectId_isValid (pollId ?v) \<and>
    polls ?s (pollId ?v) = Some (poll1\<lparr>totalVotes := 1, poll_updatedAt := 600\<rparr>) \<and>
    isActive (poll1\<lparr>totalVotes := 1, poll_updatedAt := 600\<rparr>) \<and>
    700 \<le> endDate (poll1\<lparr>totalVotes := 1, poll_updatedAt := 600\<rparr>) \<and>
    Vote_validate (?v\<lparr>selectedOption := (case truthy (req_selectedOption ?b) of
                                           Some sel \<Rightarrow> sel | None \<Rightarrow> selectedOption ?v),
                      rating := req_rating ?b, emoji := req_emoji ?b\<rparr>)"
    by (simp add: example_defs store_op_defs)
  note inst = updateVote_overwrites_rating_and_emoji
    [where now = 700 and voteId = vote1_id and b = ?b and s = ?s and v = ?v and
           p = "poll1\<lparr>totalVotes := 1, poll_updatedAt := 600\<rparr>"]
  from inst pre have ok: "fst (updateVote 700 vote1_id ?b ?s) = VoteUpdated"
    by blast
  have e: "?v\<lparr>selectedOption := (case truthy (req_selectedOption ?b) of
                                   Some sel \<Rightarrow> sel | None \<Rightarrow> selectedOption ?v),
              rating := req_rating ?b, emoji := req_emoji ?b,
              vote_updatedAt :=
                (if (case truthy (req_selectedOption ?b) of
                       Some sel \<Rightarrow> sel | None \<Rightarrow> selectedOption ?v) \<noteq> selectedOption ?v \<or>
                    req_rating ?b \<noteq> rating ?v \<or> req_emoji ?b \<noteq> emoji ?v
                 then 700 else vote_updatedAt ?v)\<rparr>
           = alice_vote\<lparr>rating := Some 8, emoji := Some ''+1'', vote_updatedAt := 700\<rparr>"
    by (simp add: example_defs new_Vote_def truthy_def)
  from inst ok have
    "(\<exists>v. find (\<lambda>w. vote_id w = vote1_id) (votes ?s) = Some v \<and>
          find (\<lambda>w. vote_id w = vote1_id) (votes (snd (updateVote 700 vote1_id ?b ?s))) =
            Some (v\<lparr>selectedOption := (case truthy (req_selectedOption ?b) of
                                         Some sel \<Rightarrow> sel | None \<Rightarrow> selectedOption v),
                    rating := req_rating ?b, emoji := req_emoji ?b,
                    vote_updatedAt :=
                      (if (case truthy (req_selectedOption ?b) of
                             Some sel \<Rightarrow> sel | None \<Rightarrow> selectedOption v) \<noteq> selectedOption v \<or>
                          req_rating ?b \<noteq> rating v \<or> req_emoji ?b \<noteq> emoji v
                       then 700 else vote_updatedAt v)\<rparr>)) \<and>
     polls (snd (updateVote 700 vote1_id ?b ?s)) = polls ?s"
    by blast
  with pre e have "find (\<lambda>w. vote_id w = vote1_id)
       (votes (snd (updateVote 700 vote1_id ?b ?s)))
     = Some (alice_vote\<lparr>rating := Some 8, emoji := Some ''+1'', vote_updatedAt := 700\<rparr>) \<and>
     polls (snd (updateVote 700 vote1_id ?b ?s)) = polls store2"
    by auto
  moreover have "selectedOption alice_vote = ''yes''"
    by (simp add: example_defs new_Vote_def)
  ultimately show ?thesis using ok by blast
qed

text \<open>
  An update whose body is empty erases the stored rating and emoji, and an update
  with a rating of 11 fails the validator and changes nothing.
\<close>

lemma updateVote_erases_omitted:
  "updateVote 700 vote1_id empty_body
     (store2\<lparr>votes := [alice_vote\<lparr>rating := Some 3, emoji := Some ''-1''\<rparr>]\<rparr>) =
     (VoteUpdated, store2\<lparr>votes := [alice_vote\<lparr>vote_updatedAt := 700\<rparr>]\<rparr>) \<and>
   rating alice_vote = None \<and> emoji alice_vote = None \<and>
   updateVote 700 vote1_id (empty_body\<lparr>req_rating := Some 11\<rparr>) store2 =
     (UpdateVoteFailed, store2)"
  by (simp add: example_defs updateVote_def store_op_defs)

text \<open>
  C10 as it is worded fails on \<open>updatedAt\<close>: alice's vote was stored at time 600, and
  the update at time 700 that gives it the rating 8 also changes its \<open>updatedAt\<close>, a
  field that is none of the three the body carries.
\<close>

theorem updateVote_touches_updatedAt_counterexample:
  "votes store2 = [alice_vote] \<and> vote_updatedAt alice_vote = 600 \<and>
   updateVote 700 vote1_id (empty_body\<lparr>req_rating := Some 8\<rparr>) store2 =
     (VoteUpdated,
      store2\<lparr>votes := [alice_vote\<lparr>rating := Some 8, vote_updatedAt := 700\<rparr>]\<rparr>) \<and>
   vote_updatedAt (alice_vote\<lparr>rating := Some 8, vote_updatedAt := 700\<rparr>)
     \<noteq> vote_updatedAt alice_vote"
  by (simp add: example_defs updateVote_def store_op_defs)

section \<open>One signature per participant\<close>









section \<open>A second vote of the same participant\<close>





section \<open>The option a vote references\<close>

lemma castVote_rejects_unknown_option:
  "truthy (req_userId b) \<noteq> None \<Longrightarrow> req_pollId b = Some i \<Longrightarrow> ObjectId_isValid i \<Longrightarrow>
   req_selectedOption b = Some sel \<Longrightarrow> sel \<noteq> [] \<Longrightarrow> polls s i = Some p \<Longrightarrow>
   isActive p \<Longrightarrow> now \<le> endDate p \<Longrightarrow> sel \<notin> set (option_ids p) \<Longrightarrow>
   castVote now newId b s = (InvalidOption, s)"
  by (auto simp: castVote_def castVote_check_def truthy_def Poll_findById_def ObjectId_isValid_def
      option_ids_def find_None_iff split: option.splits if_splits)

lemma castVote_keeps_votes_reference_options:
  assumes "votes_reference_options s"
  shows "votes_reference_options (snd (castVote now newId b s))"
proof (cases "fst (castVote now newId b s) = VoteCast")
  case False
  from castVote_not_cast [OF False] show ?thesis
  proof
    assume "snd (castVote now newId b s) = s"
    then show ?thesis using assms by simp
  next
    assume "\<exists>i sel p. req_pollId b = Some i \<and> req_selectedOption b = Some sel \<and>
       polls s i = Some p \<and> sel \<in> set (option_ids p) \<and> \<not> Poll_validate p \<and>
       castVote now newId b s =
         (CastVoteFailed, s\<lparr>votes := votes s @ [new_Vote now newId b]\<rparr>)"
    then obtain i sel p where b: "req_pollId b = Some i" "req_selectedOption b = Some sel"
      and p: "polls s i = Some p" and sel: "sel \<in> set (option_ids p)"
      and s': "castVote now newId b s =
         (CastVoteFailed, s\<lparr>votes := votes s @ [new_Vote now newId b]\<rparr>)"
      by blast
    have nv: "pollId (new_Vote now newId b) = i" "selectedOption (new_Vote now newId b) = sel"
      using b by (simp_all add: new_Vote_def)
    show ?thesis
      unfolding s' using assms p sel nv
      by (auto simp: votes_reference_options_def)
  qed
next
  case True
  then obtain i sel p where b: "req_pollId b = Some i" "req_selectedOption b = Some sel"
    and p: "polls s i = Some p" and sel: "sel \<in> set (option_ids p)"
    and s': "snd (castVote now newId b s) =
       s\<lparr>votes := votes s @ [new_Vote now newId b],
         polls := (polls s)(i \<mapsto> p\<lparr>totalVotes := totalVotes p + 1,
                                       poll_updatedAt := now\<rparr>)\<rparr>"
    by (elim castVote_success) blast
  have nv: "pollId (new_Vote now newId b) = i" "selectedOption (new_Vote now newId b) = sel"
    using b by (simp_all add: new_Vote_def)
  show ?thesis
    unfolding s' using assms p sel nv
    by (auto simp: votes_reference_options_def option_ids_def)
qed

text \<open>
  C7 fails on \<open>updateVote\<close>. \<open>castVote\<close> turns down an option that the poll does not have
  and keeps every stored vote on an option of its poll (the two lemmas above), but
  \<open>updateVote\<close> stores whatever non-empty option the body carries: it never reads the
  options of the poll.
\<close>

theorem updateVote_stores_any_option:
  "fst (updateVote now voteId b s) = VoteUpdated \<and> req_selectedOption b = Some sel \<and>
   sel \<noteq> [] \<longrightarrow>
     (\<exists>v. find (\<lambda>w. vote_id w = voteId) (votes (snd (updateVote now voteId b s))) = Some v \<and>
          selectedOption v = sel)"
proof
  assume a: "fst (updateVote now voteId b s) = VoteUpdated \<and> req_selectedOption b = Some sel \<and>
    sel \<noteq> []"
  then obtain v p where v: "find (\<lambda>w. vote_id w = voteId) (votes s) = Some v"
    and s': "snd (updateVote now voteId b s) =
      s\<lparr>votes := replace_first (\<lambda>w. vote_id w = voteId)
            (\<lambda>w. v\<lparr>selectedOption := (case truthy (req_selectedOption b) of
                                         Some sel \<Rightarrow> sel | None \<Rightarrow> selectedOption v),
                    rating := req_rating b, emoji := req_emoji b,
                    vote_updatedAt :=
                      (if (case truthy (req_selectedOption b) of
                             Some sel \<Rightarrow> sel | None \<Rightarrow> selectedOption v) \<noteq> selectedOption v \<or>
                          req_rating b \<noteq> rating v \<or> req_emoji b \<noteq> emoji v
                       then now else vote_updatedAt v)\<rparr>)
            (votes s)\<rparr>"
    by (elim conjE updateVote_success)
  from v have vid: "vote_id v = voteId" by (auto dest: find_Some_P)
  show "\<exists>v. find (\<lambda>w. vote_id w = voteId) (votes (snd (updateVote now voteId b s))) = Some v \<and>
          selectedOption v = sel"
    unfolding s' using v vid a
    by (simp add: find_replace_first truthy_def)
qed

text \<open>
  C7 at the failing input: in a store whose votes all reference options of their poll,
  alice's vote for yes is updated to the option maybe, which the poll does not have;
  the request succeeds and the stored vote references maybe.
\<close>

theorem updateVote_stores_any_option_witness:
  "votes_reference_options store2 \<and>
   ''maybe'' \<notin> set (option_ids poll1) \<and>
   updateVote 700 vote1_id (empty_body\<lparr>req_selectedOption := Some ''maybe''\<rparr>) store2 =
     (VoteUpdated,
      store2\<lparr>votes := [alice_vote\<lparr>selectedOption := ''maybe'',
                                   vote_updatedAt := 700\<rparr>]\<rparr>) \<and>
   (\<exists>v. find (\<lambda>w. vote_id w = vote1_id)
            (votes (snd (updateVote 700 vote1_id
                           (empty_body\<lparr>req_selectedOption := Some ''maybe''\<rparr>) store2)))
          = Some v \<and> selectedOption v = ''maybe'') \<and>
   \<not> votes_reference_options
        (snd (updateVote 700 vote1_id (empty_body\<lparr>req_selectedOption := Some ''maybe''\<rparr>)
                store2))"
proof -
  let ?b = "empty_body\<lparr>req_selectedOption := Some ''maybe''\<rparr>"
  have run: "updateVote 700 vote1_id ?b store2 =
     (VoteUpdated,
      store2\<lparr>votes := [alice_vote\<lparr>selectedOption := ''maybe'',
                                   vote_updatedAt := 700\<rparr>]\<rparr>)"
    by (simp add: example_defs updateVote_def store_op_defs)
  have pre: "fst (updateVote 700 vote1_id ?b store2) = VoteUpdated \<and>
      req_selectedOption ?b = Some ''maybe'' \<and> ''maybe'' \<noteq> []"
    unfolding run by (simp add: example_defs)
  have inv: "votes_reference_options store2"
    by (simp add: votes_reference_options_def example_defs option_ids_def new_Vote_def)
  have nm: "''maybe'' \<notin> set (option_ids poll1)"
    by (simp add: example_defs option_ids_def)
  have ninv: "\<not> votes_reference_options (snd (updateVote 700 vote1_id ?b store2))"
    unfolding run
    by (simp add: votes_reference_options_def example_defs option_ids_def new_Vote_def)
  from updateVote_stores_any_option
         [where now = 700 and voteId = vote1_id and b = ?b and s = store2 and
                sel = "''maybe''"] pre
  have "\<exists>v. find (\<lambda>w. vote_id w = vote1_id)
               (votes (snd (updateVote 700 vote1_id ?b store2))) = Some v \<and>
            selectedOption v = ''maybe''"
    by blast
  with inv nm run ninv show ?thesis by blast
qed

section \<open>Percentages of the poll results\<close>

subsection \<open>Evaluating the double-precision operations\<close>

lemma floor_rat_numeral [simp]:
  "\<lfloor>numeral a / numeral b :: rat\<rfloor> = numeral a div numeral b"
  by (metis floor_divide_of_int_eq of_int_numeral)

lemma floor_rat_one_numeral [simp]: "\<lfloor>1 / numeral b :: rat\<rfloor> = 1 div numeral b"
  by (metis floor_divide_of_int_eq of_int_numeral of_int_1)

lemma ceiling_rat_numeral [simp]:
  "\<lceil>numeral a / numeral b :: rat\<rceil> = - ((- numeral a) div numeral b)"
  by (metis ceiling_divide_eq_div of_int_numeral)

lemmas double_defs =
  fmul_def fdiv_def double_round_def ilog2_def round_half_even_def Math_round_def
  compute_bitlen Let_def

lemma double_round_0 [simp]: "double_round 0 = 0"
  by (simp add: double_round_def)

lemma percentage_no_votes: "fdiv (of_int (Math_round (fmul 0 100))) 100 = 0"
  by (simp add: fmul_def fdiv_def Math_round_def)

subsection \<open>The error of one double-precision operation\<close>

lemma ilog2_bounds:
  assumes "0 < x"
  shows "2 powi (ilog2 x) \<le> x \<and> x < 2 powi (ilog2 x + 1)"
proof (cases "1 \<le> x")
  case True
  define m where "m = \<lfloor>x\<rfloor>"
  have m: "0 < m" using True by (simp add: m_def)
  from bitlen_bounds [OF m] have b: "2 ^ nat (bitlen m - 1) \<le> m" "m < 2 ^ nat (bitlen m)"
    by auto
  have bl: "1 \<le> bitlen m" using m by (simp add: bitlen_alt_def)
  have e: "ilog2 x = bitlen m - 1" using True by (simp add: ilog2_def m_def)
  have "(2::rat) powi (bitlen m - 1) = of_int (2 ^ nat (bitlen m - 1))"
    using bl by (simp add: power_int_def)
  also have "\<dots> \<le> of_int m" using b(1) by (simp only: of_int_le_iff)
  also have "\<dots> \<le> x" by (simp add: m_def)
  finally have lo: "2 powi (ilog2 x) \<le> x" by (simp add: e)
  have "m + 1 \<le> 2 ^ nat (bitlen m)" using b(2) by simp
  then have "(of_int (m + 1) :: rat) \<le> of_int (2 ^ nat (bitlen m))"
    by (simp only: of_int_le_iff)
  moreover have "x < of_int (m + 1)" using floor_correct [of x] by (simp add: m_def)
  moreover have "(2::rat) powi (bitlen m - 1 + 1) = of_int (2 ^ nat (bitlen m))"
    using bl by (simp add: power_int_def)
  ultimately have "x < 2 powi (ilog2 x + 1)" by (simp add: e)
  with lo show ?thesis by simp
next
  case False
  define M where "M = \<lceil>1 / x\<rceil>"
  define j where "j = bitlen (M - 1)"
  from False assms have y: "1 < 1 / x" by (simp add: field_simps)
  then have M2: "2 \<le> M" unfolding M_def by (simp add: le_ceiling_iff)
  then have m: "0 < M - 1" by simp
  from bitlen_bounds [OF m] have b: "2 ^ nat (j - 1) \<le> M - 1" "M - 1 < 2 ^ nat j"
    by (auto simp: j_def)
  have bl: "1 \<le> j" using m by (simp add: bitlen_alt_def j_def)
  have e: "ilog2 x = - j" using False by (simp add: ilog2_def M_def j_def)
  have "1 / x \<le> of_int M" by (simp add: M_def)
  also have "M \<le> 2 ^ nat j" using b(2) by simp
  then have "(of_int M :: rat) \<le> of_int (2 ^ nat j)" by (simp only: of_int_le_iff)
  finally have "1 / x \<le> 2 ^ nat j" by simp
  then have "1 / 2 ^ nat j \<le> x" using assms by (simp add: field_simps)
  moreover have "(2::rat) powi (- j) = 1 / 2 ^ nat j"
    using bl by (simp add: power_int_def field_simps)
  ultimately have lo: "2 powi (ilog2 x) \<le> x" by (simp add: e)
  have "(of_int (2 ^ nat (j - 1)) :: rat) \<le> of_int (M - 1)"
    using b(1) by (simp only: of_int_le_iff)
  moreover have "of_int (M - 1) < 1 / x"
    using ceiling_correct [of "1 / x"] by (simp add: M_def)
  ultimately have "2 ^ nat (j - 1) < 1 / x" by simp
  then have "x < 1 / 2 ^ nat (j - 1)" using assms by (simp add: field_simps)
  moreover have "(2::rat) powi (- j + 1) = 1 / 2 ^ nat (j - 1)"
    using bl by (simp add: power_int_def field_simps nat_diff_distrib)
  ultimately have "x < 2 powi (ilog2 x + 1)" by (simp add: e)
  with lo show ?thesis by simp
qed

lemma round_half_even_close: "\<bar>of_int (round_half_even y) - y\<bar> \<le> 1 / 2"
proof -
  have "of_int \<lfloor>y\<rfloor> \<le> y" "y < of_int \<lfloor>y\<rfloor> + 1" by linarith+
  then show ?thesis
    by (auto simp: round_half_even_def Let_def abs_le_iff)
qed

lemma round_half_even_nonneg: "0 \<le> y \<Longrightarrow> 0 \<le> round_half_even y"
  by (auto simp: round_half_even_def Let_def)

lemma double_round_nonneg: "0 \<le> x \<Longrightarrow> 0 \<le> double_round x"
  by (auto simp: double_round_def Let_def round_half_even_nonneg sgn_if)

text \<open>
  The relative error of one operation is at most \<open>2^-53\<close>, half a unit in the last of
  the 53 bits.
\<close>

lemma double_round_close:
  assumes "0 \<le> x"
  shows "\<bar>double_round x - x\<bar> \<le> x / 2 ^ 53"
proof (cases "x = 0")
  case True
  then show ?thesis by (simp add: double_round_def)
next
  case False
  with assms have pos: "0 < x" by simp
  define e where "e = ilog2 x"
  define ulp :: rat where "ulp = 2 powi (e - 52)"
  have up: "0 < ulp" by (simp add: ulp_def)
  define k where "k = round_half_even (x / ulp)"
  have dr: "double_round x = of_int k * ulp"
    using pos by (simp add: double_round_def Let_def k_def ulp_def e_def)
  have "\<bar>of_int k - x / ulp\<bar> \<le> 1 / 2" unfolding k_def by (rule round_half_even_close)
  then have "\<bar>of_int k - x / ulp\<bar> * ulp \<le> 1 / 2 * ulp"
    using up by (simp only: mult_le_cancel_right_pos)
  moreover have "\<bar>of_int k - x / ulp\<bar> * ulp = \<bar>of_int k * ulp - x\<bar>"
  proof -
    have "(of_int k - x / ulp) * ulp = of_int k * ulp - x"
      using up by (simp add: left_diff_distrib)
    then have "\<bar>of_int k * ulp - x\<bar> = \<bar>of_int k - x / ulp\<bar> * \<bar>ulp\<bar>"
      by (simp only: abs_mult [symmetric])
    with up show ?thesis by simp
  qed
  ultimately have a: "\<bar>double_round x - x\<bar> \<le> ulp / 2" by (simp add: dr)
  have "(2::rat) powi (e - 52) = 2 powi e / 2 powi 52"
    by (rule power_int_diff) simp
  moreover have "(2::rat) powi 52 = 4503599627370496" by simp
  ultimately have u: "ulp * 4503599627370496 = 2 powi e"
    by (simp add: ulp_def)
  have le: "2 powi e \<le> x" using ilog2_bounds [OF pos] by (simp add: e_def)
  have "ulp / 2 \<le> x / 9007199254740992" using u le by linarith
  with a have "\<bar>double_round x - x\<bar> \<le> x / 9007199254740992" by linarith
  then show ?thesis by simp
qed

text \<open>
  The four operations and the \<open>Math.round\<close> of one row: the percentage is within
  \<open>0.005 + 10^-11\<close> of the exact share times 100.
\<close>

lemma percentage_close:
  assumes "c \<le> n" "0 < n"
  shows "\<bar>fdiv (of_int (Math_round (fmul (fmul (fdiv (of_nat c) (of_nat n)) 100) 100))) 100
          - of_nat c / of_nat n * 100\<bar> \<le> 1 / 200 + 1 / 100000000000"
proof -
  define x :: rat where "x = of_nat c / of_nat n"
  define q where "q = double_round x"
  define p where "p = double_round (q * 100)"
  define y where "y = double_round (p * 100)"
  define r where "r = \<lfloor>y + 1 / 2\<rfloor>"
  define res where "res = double_round (of_int r / 100)"
  have x0: "0 \<le> x" by (simp add: x_def)
  have x1: "x \<le> 1" using assms by (simp add: x_def)
  have q0: "0 \<le> q" unfolding q_def using x0 by (rule double_round_nonneg)
  have q1: "\<bar>q - x\<bar> \<le> x / 9007199254740992"
    using double_round_close [OF x0] by (simp add: q_def)
  have p0: "0 \<le> p" unfolding p_def using q0 by (intro double_round_nonneg) simp
  have p1: "\<bar>p - q * 100\<bar> \<le> q * 100 / 9007199254740992"
    using double_round_close [of "q * 100"] q0 by (simp add: p_def)
  have y0: "0 \<le> y" unfolding y_def using p0 by (intro double_round_nonneg) simp
  have y1: "\<bar>y - p * 100\<bar> \<le> p * 100 / 9007199254740992"
    using double_round_close [of "p * 100"] p0 by (simp add: y_def)
  have r1: "of_int r \<le> y + 1 / 2" "y + 1 / 2 < of_int r + 1"
    unfolding r_def by linarith+
  have r0: "0 \<le> r" unfolding r_def using y0 by simp
  then have r0': "(0::rat) \<le> of_int r / 100" by simp
  have s1: "\<bar>res - of_int r / 100\<bar> \<le> of_int r / 100 / 9007199254740992"
    using double_round_close [OF r0'] by (simp add: res_def)
  have "\<bar>res - x * 100\<bar> \<le> 1 / 200 + 1 / 100000000000"
    using x0 x1 q0 q1 p0 p1 y0 y1 r1 s1 by linarith
  then show ?thesis
    by (simp add: res_def r_def y_def p_def q_def x_def fdiv_def fmul_def Math_round_def)
qed

subsection \<open>The rows of the results\<close>

lemma calc_results_rows:
  "calc_results opts vs =
     map (\<lambda>option.
        \<lparr>res_optionId = option_id option, res_optionText = option_text option,
         res_votes = length (filter (\<lambda>vote. selectedOption vote = option_id option) vs),
         res_percentage =
           (if vs = [] then 0
            else fdiv (of_int (Math_round (fmul (fmul
                   (fdiv (of_nat (length (filter (\<lambda>vote. selectedOption vote = option_id option) vs)))
                         (of_nat (length vs))) 100) 100))) 100)\<rparr>) opts"
  by (simp add: calc_results_def Let_def percentage_no_votes)

lemma sum_list_indicator:
  "distinct xs \<Longrightarrow> x \<in> set xs \<Longrightarrow> sum_list (map (\<lambda>y. if x = y then 1 else 0) xs) = (1::nat)"
proof (induction xs)
  case Nil then show ?case by simp
next
  case (Cons a xs)
  show ?case
  proof (cases "x = a")
    case True
    with Cons.prems have "x \<notin> set xs" by simp
    then have "sum_list (map (\<lambda>y. if x = y then 1 else 0) xs) = (0::nat)"
      by (induction xs) auto
    with True show ?thesis by simp
  next
    case False
    with Cons show ?thesis by simp
  qed
qed

lemma sum_counts:
  "distinct ids \<Longrightarrow> \<forall>v \<in> set vs. f v \<in> set ids \<Longrightarrow>
   sum_list (map (\<lambda>y. length (filter (\<lambda>v. f v = y) vs)) ids) = length vs"
proof (induction vs)
  case Nil then show ?case by simp
next
  case (Cons v vs)
  have "sum_list (map (\<lambda>y. length (filter (\<lambda>w. f w = y) (v # vs))) ids)
      = sum_list (map (\<lambda>y. (if f v = y then 1 else 0) + length (filter (\<lambda>w. f w = y) vs)) ids)"
    by (rule arg_cong [where f = sum_list]) (simp)
  also have "\<dots> = sum_list (map (\<lambda>y. if f v = y then 1 else 0) ids)
                 + sum_list (map (\<lambda>y. length (filter (\<lambda>w. f w = y) vs)) ids)"
    by (simp add: sum_list_addf)
  also have "\<dots> = 1 + length vs"
    using Cons by (simp add: sum_list_indicator)
  finally show ?case by simp
qed

lemma sum_list_close:
  "\<forall>x \<in> set xs. \<bar>f x - g x\<bar> \<le> (e::rat) \<Longrightarrow>
   \<bar>sum_list (map f xs) - sum_list (map g xs)\<bar> \<le> of_nat (length xs) * e"
proof (induction xs)
  case Nil then show ?case by simp
next
  case (Cons a xs)
  have "\<bar>sum_list (map f (a # xs)) - sum_list (map g (a # xs))\<bar>
      = \<bar>(f a - g a) + (sum_list (map f xs) - sum_list (map g xs))\<bar>" by simp
  also have "\<dots> \<le> \<bar>f a - g a\<bar> + \<bar>sum_list (map f xs) - sum_list (map g xs)\<bar>"
    by (rule abs_triangle_ineq)
  also have "\<dots> \<le> e + of_nat (length xs) * e"
    using Cons by (intro add_mono) auto
  finally show ?case by (simp add: algebra_simps)
qed

lemma sum_percentages:
  assumes "vs \<noteq> []" "distinct (map option_id opts)"
    "\<forall>v \<in> set vs. selectedOption v \<in> set (map option_id opts)"
  shows "\<bar>sum_list (map res_percentage (calc_results opts vs)) - 100\<bar>
           \<le> of_nat (length opts) * (1 / 200 + 1 / 100000000000)"
proof -
  let ?c = "\<lambda>option. length (filter (\<lambda>vote. selectedOption vote = option_id option) vs)"
  let ?f = "\<lambda>option. fdiv (of_int (Math_round (fmul (fmul
                (fdiv (of_nat (?c option)) (of_nat (length vs))) 100) 100))) 100"
  let ?g = "\<lambda>option. of_nat (?c option) / of_nat (length vs) * (100::rat)"
  have pct: "map res_percentage (calc_results opts vs) = map ?f opts"
    using assms(1) by (simp add: calc_results_rows o_def)
  have "sum_list (map (\<lambda>y. length (filter (\<lambda>v. selectedOption v = y) vs)) (map option_id opts)) = length vs"
    using assms(2,3) by (rule sum_counts)
  then have cnt: "sum_list (map ?c opts) = length vs"
    by (simp add: o_def)
  have "sum_list (map ?g opts) = of_nat (sum_list (map ?c opts)) / of_nat (length vs) * 100"
    by (induction opts) (simp_all add: add_divide_distrib distrib_right)
  with cnt assms(1) have ex: "sum_list (map ?g opts) = 100" by simp
  have n: "0 < length vs" using assms(1) by simp
  have "\<forall>x \<in> set opts. \<bar>?f x - ?g x\<bar> \<le> 1 / 200 + 1 / 100000000000"
    using percentage_close [OF length_filter_le n] by blast
  then have "\<bar>sum_list (map ?f opts) - sum_list (map ?g opts)\<bar>
               \<le> of_nat (length opts) * (1 / 200 + 1 / 100000000000)"
    by (rule sum_list_close)
  with pct ex show ?thesis by simp
qed

subsection \<open>The store with 160 votes\<close>

lemma length_filter_less_upt: "length (filter (\<lambda>k. k < m) [0..<n]) = min m n"
  by (induction n) auto

lemma length_filter_not_less_upt: "length (filter (\<lambda>k. \<not> k < m) [0..<n]) = n - m"
  by (induction n) auto

lemma nth_vote_fields:
  "pollId (nth_vote k) = poll1_id"
  "selectedOption (nth_vote k) = (if k < 23 then ''yes'' else ''no'')"
  "metadata (nth_vote k) =
     \<lparr>state = None, city = None, ageGroup = None, gender = None,
      timestamp = 600 + int k\<rparr>"
  by (simp_all add: nth_vote_def new_Vote_def vote_body_def empty_body_def)

lemma store160_votes:
  "filter (voteFilter poll1_id None None None) (votes store160) = map nth_vote [0..<160]"
  "length (map nth_vote [0..<160]) = 160"
  "length (filter (\<lambda>vote. selectedOption vote = ''yes'') (map nth_vote [0..<160])) = 23"
  "length (filter (\<lambda>vote. selectedOption vote = ''no'') (map nth_vote [0..<160])) = 137"
proof -
  show "filter (voteFilter poll1_id None None None) (votes store160) = map nth_vote [0..<160]"
    by (simp add: store160_def store1_def voteFilter_def truthy_def nth_vote_fields
        filter_map o_def del: upt_rec_numeral)
  show "length (map nth_vote [0..<160]) = 160" by (simp del: upt_rec_numeral)
  have y: "(\<lambda>vote. selectedOption vote = ''yes'') \<circ> nth_vote = (\<lambda>k. k < 23)"
    by (rule ext) (simp add: nth_vote_fields)
  have n: "(\<lambda>vote. selectedOption vote = ''no'') \<circ> nth_vote = (\<lambda>k. \<not> k < 23)"
    by (rule ext) (simp add: nth_vote_fields)
  show "length (filter (\<lambda>vote. selectedOption vote = ''yes'') (map nth_vote [0..<160])) = 23"
    unfolding filter_map y by (simp add: length_filter_less_upt del: upt_rec_numeral)
  show "length (filter (\<lambda>vote. selectedOption vote = ''no'') (map nth_vote [0..<160])) = 137"
    unfolding filter_map n by (simp add: length_filter_not_less_upt del: upt_rec_numeral)
qed

lemma store160_results:
  "calc_results (options poll1) (map nth_vote [0..<160]) =
     [\<lparr>res_optionId = ''yes'', res_optionText = ''Yes'', res_votes = 23,
       res_percentage = 8089590830664253 / 562949953421312\<rparr>,
      \<lparr>res_optionId = ''no'', res_optionText = ''No'', res_votes = 137,
       res_percentage = 753209445491671 / 8796093022208\<rparr>]"
proof -
  have a: "fdiv (of_int (Math_round (fmul (fmul (fdiv 23 160) 100) 100))) 100
             = 8089590830664253 / 562949953421312"
    by (simp add: double_defs)
  have b: "fdiv (of_int (Math_round (fmul (fmul (fdiv 137 160) 100) 100))) 100
             = 753209445491671 / 8796093022208"
    by (simp add: double_defs)
  have ne: "map nth_vote [0..<160] \<noteq> []" by (simp del: upt_rec_numeral)
  show ?thesis
    unfolding calc_results_rows
    by (simp only: poll1_def poll.simps list.map option_doc.simps store160_votes ne if_False
        of_nat_numeral a b)
qed


text \<open>
  C8, as the code has it. Both results handlers return \<open>calc_results\<close> of the poll's
  options and the votes that match the filter: one row for each option, with the number
  of matching votes that selected it. The percentage of a row is 0 when no vote
  matches; otherwise it is the number that the double-precision operations
  \<open>(votes / total) * 100\<close>, \<open>* 100\<close>, \<open>Math.round\<close> and \<open>/ 100\<close> return, the double
  nearest to a number of two decimals, and it lies within \<open>0.005 + 10^-11\<close> of the exact
  \<open>votes / total * 100\<close>. When at least one vote matches, the option ids are pairwise
  distinct and every matching vote selected one of the poll's options, the percentages
  add up to 100 within \<open>0.005 + 10^-11\<close> for each option.
\<close>

theorem poll_results_percentages:
  "(ObjectId_isValid i \<and> polls s i = Some p \<longrightarrow>
      getPollResults i st ag g s =
        Inr (calc_results (options p) (filter (voteFilter i st ag g) (votes s))) \<and>
      results_route i st ag g s =
        Inr (calc_results (options p) (filter (voteFilter i st ag g) (votes s)))) \<and>
   map res_optionId (calc_results opts vs) = map option_id opts \<and>
   (\<forall>r \<in> set (calc_results opts vs).
      res_votes r = length (filter (\<lambda>v. selectedOption v = res_optionId r) vs) \<and>
      res_percentage r =
        (if vs = [] then 0
         else fdiv (of_int (Math_round (fmul (fmul
                (fdiv (of_nat (res_votes r)) (of_nat (length vs))) 100) 100))) 100) \<and>
      \<bar>res_percentage r -
         (if vs = [] then 0 else of_nat (res_votes r) / of_nat (length vs) * 100)\<bar>
        \<le> 1 / 200 + 1 / 100000000000) \<and>
   (vs \<noteq> [] \<and> distinct (map option_id opts) \<and>
    (\<forall>v \<in> set vs. selectedOption v \<in> set (map option_id opts)) \<longrightarrow>
      \<bar>sum_list (map res_percentage (calc_results opts vs)) - 100\<bar>
        \<le> of_nat (length opts) * (1 / 200 + 1 / 100000000000))"
proof (intro conjI)
  show "ObjectId_isValid i \<and> polls s i = Some p \<longrightarrow>
      getPollResults i st ag g s =
        Inr (calc_results (options p) (filter (voteFilter i st ag g) (votes s))) \<and>
      results_route i st ag g s =
        Inr (calc_results (options p) (filter (voteFilter i st ag g) (votes s)))"
    by (simp add: getPollResults_def results_route_def Poll_findById_def)
  show "map res_optionId (calc_results opts vs) = map option_id opts"
    by (simp add: calc_results_rows o_def)
  show "\<forall>r \<in> set (calc_results opts vs).
      res_votes r = length (filter (\<lambda>v. selectedOption v = res_optionId r) vs) \<and>
      res_percentage r =
        (if vs = [] then 0
         else fdiv (of_int (Math_round (fmul (fmul
                (fdiv (of_nat (res_votes r)) (of_nat (length vs))) 100) 100))) 100) \<and>
      \<bar>res_percentage r -
         (if vs = [] then 0 else of_nat (res_votes r) / of_nat (length vs) * 100)\<bar>
        \<le> 1 / 200 + 1 / 100000000000"
  proof
    fix r assume r_in: "r \<in> set (calc_results opts vs)"
    define row where "row = (\<lambda>option :: option_doc.
        \<lparr>res_optionId = option_id option, res_optionText = option_text option,
         res_votes = length (filter (\<lambda>vote. selectedOption vote = option_id option) vs),
         res_percentage =
           (if vs = [] then 0
            else fdiv (of_int (Math_round (fmul (fmul
                   (fdiv (of_nat (length (filter (\<lambda>vote. selectedOption vote = option_id option) vs)))
                         (of_nat (length vs))) 100) 100))) 100)\<rparr>)"
    have "calc_results opts vs = map row opts"
      unfolding row_def by (rule calc_results_rows)
    with r_in obtain option where r: "r = row option" by auto
    show "res_votes r = length (filter (\<lambda>v. selectedOption v = res_optionId r) vs) \<and>
      res_percentage r =
        (if vs = [] then 0
         else fdiv (of_int (Math_round (fmul (fmul
                (fdiv (of_nat (res_votes r)) (of_nat (length vs))) 100) 100))) 100) \<and>
      \<bar>res_percentage r -
         (if vs = [] then 0 else of_nat (res_votes r) / of_nat (length vs) * 100)\<bar>
        \<le> 1 / 200 + 1 / 100000000000"
    proof (cases "vs = []")
      case True
      then show ?thesis by (simp add: r row_def)
    next
      case False
      then have n: "0 < length vs" by simp
      from percentage_close [OF length_filter_le n] False show ?thesis
        by (simp add: r row_def)
    qed
  qed
  show "vs \<noteq> [] \<and> distinct (map option_id opts) \<and>
    (\<forall>v \<in> set vs. selectedOption v \<in> set (map option_id opts)) \<longrightarrow>
      \<bar>sum_list (map res_percentage (calc_results opts vs)) - 100\<bar>
        \<le> of_nat (length opts) * (1 / 200 + 1 / 100000000000)"
    using sum_percentages by blast
qed

text \<open>
  C8 at a concrete store: three options with one vote each give three times the double
  nearest to 33.33, which add up to 99.99 within the last bits.
\<close>

theorem poll_results_percentages_witness:
  "ObjectId_isValid poll1_id \<and> polls store3 poll1_id = Some poll3 \<and>
   getPollResults poll1_id None None None store3 =
     Inr [\<lparr>res_optionId = ''a'', res_optionText = ''Roads'', res_votes = 1,
           res_percentage = 2345390243441541 / 70368744177664\<rparr>,
          \<lparr>res_optionId = ''b'', res_optionText = ''Water'', res_votes = 1,
           res_percentage = 2345390243441541 / 70368744177664\<rparr>,
          \<lparr>res_optionId = ''c'', res_optionText = ''Power'', res_votes = 1,
           res_percentage = 2345390243441541 / 70368744177664\<rparr>] \<and>
   double_round (3333 / 100) = 2345390243441541 / 70368744177664 \<and>
   \<bar>2345390243441541 / 70368744177664 - (1 / 3 * 100 :: rat)\<bar> \<le> 1 / 200 + 1 / 100000000000 \<and>
   sum_list (map res_percentage (calc_results (options poll3) (votes store3)))
     = 7036170730324623 / 70368744177664 \<and>
   \<bar>sum_list (map res_percentage (calc_results (options poll3) (votes store3))) - 100\<bar>
     \<le> of_nat (length (options poll3)) * (1 / 200 + 1 / 100000000000)"
proof -
  have pre: "ObjectId_isValid poll1_id \<and> polls store3 poll1_id = Some poll3"
    by (simp add: example_defs ObjectId_isValid_def)
  have f: "filter (voteFilter poll1_id None None None) (votes store3) = votes store3"
    by (simp add: voteFilter_def truthy_def example_defs new_Vote_def)
  have third: "fdiv (of_int (Math_round (fmul (fmul (fdiv 1 3) 100) 100))) 100
                 = 2345390243441541 / 70368744177664"
    by (simp add: double_defs)
  have rows: "calc_results (options poll3) (votes store3) =
     [\<lparr>res_optionId = ''a'', res_optionText = ''Roads'', res_votes = 1,
       res_percentage = 2345390243441541 / 70368744177664\<rparr>,
      \<lparr>res_optionId = ''b'', res_optionText = ''Water'', res_votes = 1,
       res_percentage = 2345390243441541 / 70368744177664\<rparr>,
      \<lparr>res_optionId = ''c'', res_optionText = ''Power'', res_votes = 1,
       res_percentage = 2345390243441541 / 70368744177664\<rparr>]"
    unfolding calc_results_rows
    by (simp add: example_defs new_Vote_def third)
  have dr: "double_round (3333 / 100) = 2345390243441541 / 70368744177664"
    by (simp add: double_defs)
  have hyp: "votes store3 \<noteq> [] \<and> distinct (map option_id (options poll3)) \<and>
      (\<forall>v \<in> set (votes store3). selectedOption v \<in> set (map option_id (options poll3)))"
    by (simp add: example_defs new_Vote_def)
  note inst = poll_results_percentages
    [where i = poll1_id and s = store3 and p = poll3 and st = None and ag = None and
           g = None and opts = "options poll3" and vs = "votes store3"]
  from inst pre f have r: "getPollResults poll1_id None None None store3 =
      Inr (calc_results (options poll3) (votes store3))"
    by simp
  from inst hyp have b:
    "\<bar>sum_list (map res_percentage (calc_results (options poll3) (votes store3))) - 100\<bar>
       \<le> of_nat (length (options poll3)) * (1 / 200 + 1 / 100000000000)"
    by blast
  have sm: "sum_list (map res_percentage (calc_results (options poll3) (votes store3)))
              = 7036170730324623 / 70368744177664"
    unfolding rows by simp
  have cl: "\<bar>2345390243441541 / 70368744177664 - (1 / 3 * 100 :: rat)\<bar>
              \<le> 1 / 200 + 1 / 100000000000"
    by simp
  from pre r rows sm b dr cl show ?thesis by simp
qed

text \<open>
  C8 as the specification words it fails in two ways. The percentage is not always
  \<open>votes / total * 100\<close> rounded to two decimals: of 160 matching votes, 23 for yes,
  the share is 14.375 and rounds to 14.38, but the code returns the double nearest to
  14.37, because its double-precision \<open>(23 / 160) * 100 * 100\<close> is
  \<open>1437.4999999999998\<close>. And the percentages do not add up to 100 where a matching vote
  selected no option of the poll: after the options of the poll were replaced, alice's
  vote for yes matches the filter, the total is 1, and both percentages are 0.
\<close>

theorem poll_results_sum_counterexample:
  "length (filter (voteFilter poll1_id None None None) (votes store160)) = 160 \<and>
   getPollResults poll1_id None None None store160 =
     Inr [\<lparr>res_optionId = ''yes'', res_optionText = ''Yes'', res_votes = 23,
           res_percentage = 8089590830664253 / 562949953421312\<rparr>,
          \<lparr>res_optionId = ''no'', res_optionText = ''No'', res_votes = 137,
           res_percentage = 753209445491671 / 8796093022208\<rparr>] \<and>
   fmul (fmul (fdiv 23 160) 100) 100 = 6322191859711999 / 4398046511104 \<and>
   (6322191859711999 / 4398046511104 :: rat) < 14375 / 10 \<and>
   double_round (1437 / 100) = 8089590830664253 / 562949953421312 \<and>
   (23 / 160 * 100 :: rat) = 14375 / 1000 \<and>
   round (23 / 160 * 100 * 100 :: rat) = 1438 \<and>
   double_round (1438 / 100) = 8095220330198467 / 562949953421312 \<and>
   length (filter (voteFilter poll1_id None None None) (votes store2_options_replaced)) = 1 \<and>
   getPollResults poll1_id None None None store2_options_replaced =
     Inr [\<lparr>res_optionId = ''agree'', res_optionText = ''Agree'', res_votes = 0,
           res_percentage = 0\<rparr>,
          \<lparr>res_optionId = ''disagree'', res_optionText = ''Disagree'', res_votes = 0,
           res_percentage = 0\<rparr>] \<and>
   sum_list (map res_percentage
     [\<lparr>res_optionId = ''agree'', res_optionText = ''Agree'', res_votes = 0,
       res_percentage = 0\<rparr>,
      \<lparr>res_optionId = ''disagree'', res_optionText = ''Disagree'', res_votes = 0,
       res_percentage = 0\<rparr>]) = 0"
proof -
  have v: "ObjectId_isValid poll1_id" by (simp add: example_defs ObjectId_isValid_def)
  have p: "polls store160 poll1_id = Some (poll1\<lparr>totalVotes := 160, poll_updatedAt := 759\<rparr>)"
    by (simp add: store160_def store1_def)
  have a: "length (filter (voteFilter poll1_id None None None) (votes store160)) = 160"
    by (simp only: store160_votes)
  have b: "getPollResults poll1_id None None None store160 =
     Inr [\<lparr>res_optionId = ''yes'', res_optionText = ''Yes'', res_votes = 23,
           res_percentage = 8089590830664253 / 562949953421312\<rparr>,
          \<lparr>res_optionId = ''no'', res_optionText = ''No'', res_votes = 137,
           res_percentage = 753209445491671 / 8796093022208\<rparr>]"
    using v p store160_results
    by (simp add: getPollResults_def store160_votes(1) del: upt_rec_numeral)
  have c: "fmul (fmul (fdiv 23 160) 100) 100 = 6322191859711999 / 4398046511104"
    by (simp add: double_defs)
  have d: "double_round (1437 / 100) = 8089590830664253 / 562949953421312"
    by (simp add: double_defs)
  have e: "double_round (1438 / 100) = 8095220330198467 / 562949953421312"
    by (simp add: double_defs)
  have f: "round (23 / 160 * 100 * 100 :: rat) = 1438"
    by (simp add: round_def)
  have g: "length (filter (voteFilter poll1_id None None None) (votes store2_options_replaced)) = 1 \<and>
   getPollResults poll1_id None None None store2_options_replaced =
     Inr [\<lparr>res_optionId = ''agree'', res_optionText = ''Agree'', res_votes = 0,
           res_percentage = 0\<rparr>,
          \<lparr>res_optionId = ''disagree'', res_optionText = ''Disagree'', res_votes = 0,
           res_percentage = 0\<rparr>]"
    by (simp add: getPollResults_def calc_results_rows voteFilter_def truthy_def example_defs
        new_Vote_def ObjectId_isValid_def fdiv_def fmul_def Math_round_def)
  from a b c d e f g show ?thesis by simp
qed

end
